theory Spec2Isabelle
  imports Complex_Main "HOL-Library.Multiset"
begin

section \<open>Data model\<close>

text \<open>
  The program is one class, \<^verbatim>\<open>MyGame\<close> in \<^verbatim>\<open>main_fixed_v2.py\<close>, whose
  methods mutate the attributes of the game object and the engine's scene graph. The
  model passes that state explicitly. Engine numbers (coordinates, angles, distances,
  the frame time) are taken as real numbers.

  \<^verbatim>\<open>blockModels\<close> has exactly the four keys below, and every block type that reaches
  \<^verbatim>\<open>createNewBlock\<close> is one of these literals.
\<close>

datatype blockType = Grass | Dirt | Sand | Stone

type_synonym vec3 = "real \<times> real \<times> real"

text \<open>The two vector operations of line 315, \<^verbatim>\<open>hitBlockPos + normal * 2\<close>.\<close>

definition vadd :: "vec3 \<Rightarrow> vec3 \<Rightarrow> vec3" where
  "vadd a b = (case a of (ax, ay, az) \<Rightarrow> case b of (bx, by, bz) \<Rightarrow> (ax + bx, ay + by, az + bz))"

definition vscale :: "vec3 \<Rightarrow> real \<Rightarrow> vec3" where
  "vscale a k = (case a of (ax, ay, az) \<Rightarrow> (ax * k, ay * k, az * k))"

text \<open>The components \<^verbatim>\<open>.x\<close>, \<^verbatim>\<open>.y\<close> and \<^verbatim>\<open>.z\<close> of a vector.\<close>

definition vx :: "vec3 \<Rightarrow> real" where
  "vx a = fst a"

definition vy :: "vec3 \<Rightarrow> real" where
  "vy a = fst (snd a)"

definition vz :: "vec3 \<Rightarrow> real" where
  "vz a = snd (snd a)"

text \<open>
  A block is the placeholder node that \<^verbatim>\<open>createNewBlock\<close> attaches to
  \<^verbatim>\<open>render\<close>: its identity, its position, its orientation and the model instanced
  under it. Its collision node is attached below it and is identified by the same number.
\<close>

record blockNode =
  nid :: nat
  npos :: vec3
  nhpr :: vec3
  nmodel :: blockType

record cameraNode =
  camX :: real
  camY :: real
  camZ :: real
  camH :: real
  camP :: real
  camR :: real

text \<open>
  An entry of the \<^verbatim>\<open>CollisionHandlerQueue\<close>: the collision node that was hit, the
  surface normal the engine reports for it (relative to that node, as line 309 asks),
  and the distance along the ray by which the engine orders the entries.
\<close>

record entry =
  intoNodePath :: nat
  surfaceNormal :: vec3
  entryDistance :: real

datatype action = Forward | Backward | MoveLeft | MoveRight | MoveUp | MoveDown

datatype mouseModeT = M_absolute | M_confined

record game =
  selectedBlockType :: blockType
  menuActive :: bool
  cameraSwingActivated :: bool
  keyMap :: "action \<Rightarrow> bool"
  lastMouseX :: real
  lastMouseY :: real
  cameraSwingFactor :: "real option"
  camera :: cameraNode
  blocks :: "blockNode list"
  ownerTag :: "nat \<Rightarrow> nat option"
  nextNode :: nat
  rayQueue :: "entry list"
  menuShown :: bool
  cursorHidden :: bool
  mouseMode :: mouseModeT

text \<open>
  The two ways the click handlers can raise: \<^verbatim>\<open>getPythonTag\<close> returns
  \<^verbatim>\<open>None\<close> for a cleared tag, and \<^verbatim>\<open>None.getDistance\<close> is an
  \<^verbatim>\<open>AttributeError\<close>; a node path emptied by \<^verbatim>\<open>removeNode\<close> fails the engine's
  assertion.
\<close>

datatype error = AttributeError | AssertionError

section \<open>Blocks and terrain\<close>

definition createNewBlock :: "real \<Rightarrow> real \<Rightarrow> real \<Rightarrow> blockType \<Rightarrow> game \<Rightarrow> game" where
  "createNewBlock x y z blockType s =
     (let newBlockNode = nextNode s in
      s\<lparr>blocks := blocks s @
            [\<lparr>nid = newBlockNode, npos = (x, y, z),
              nhpr = (if blockType = Grass then (0, 90, 0) else (0, 0, 0)),
              nmodel = blockType\<rparr>],
        ownerTag := (ownerTag s)(newBlockNode := Some newBlockNode),
        nextNode := Suc newBlockNode\<rparr>)"

text \<open>The three nested \<^verbatim>\<open>for\<close> loops over \<^verbatim>\<open>range\<close>, outermost first.\<close>

definition terrainBlock :: "nat \<Rightarrow> nat \<Rightarrow> nat \<Rightarrow> game \<Rightarrow> game" where
  "terrainBlock z y x =
     createNewBlock (real_of_int (int x * 2 - 20)) (real_of_int (int y * 2 - 20))
       (real_of_int (- int z * 2)) (if z = 0 then Grass else Dirt)"

definition generateTerrain :: "game \<Rightarrow> game" where
  "generateTerrain s =
     fold (\<lambda>z. fold (\<lambda>y. fold (\<lambda>x. terrainBlock z y x) [0..<20]) [0..<20]) [0..<10] s"

text \<open>
  The node that \<^verbatim>\<open>createNewBlock\<close> attaches for the loop indices \<open>z\<close>, \<open>y\<close>,
  \<open>x\<close> when the next free node is \<open>i\<close>.
\<close>

definition terrainNode :: "nat \<Rightarrow> nat \<Rightarrow> nat \<Rightarrow> nat \<Rightarrow> blockNode" where
  "terrainNode i z y x =
     \<lparr>nid = i,
      npos = (real_of_int (int x * 2 - 20), real_of_int (int y * 2 - 20), real_of_int (- int z * 2)),
      nhpr = (if z = 0 then (0, 90, 0) else (0, 0, 0)),
      nmodel = (if z = 0 then Grass else Dirt)\<rparr>"

section \<open>Mouse capture and the pause menu\<close>

text \<open>\<^verbatim>\<open>md\<close> is the pointer position the window reports at the call.\<close>

definition captureMouse :: "real \<times> real \<Rightarrow> game \<Rightarrow> game" where
  "captureMouse md s =
     s\<lparr>cameraSwingActivated := True, lastMouseX := fst md, lastMouseY := snd md,
       cursorHidden := True, mouseMode := M_confined\<rparr>"

definition releaseMouse :: "game \<Rightarrow> game" where
  "releaseMouse s = s\<lparr>cameraSwingActivated := False, cursorHidden := False, mouseMode := M_absolute\<rparr>"

definition toggleMenu :: "real \<times> real \<Rightarrow> game \<Rightarrow> game" where
  "toggleMenu md s =
     (if menuActive s then captureMouse md (s\<lparr>menuShown := False, menuActive := False\<rparr>)
      else releaseMouse (s\<lparr>menuShown := True, menuActive := True\<rparr>))"

definition updateKeyMap :: "action \<Rightarrow> bool \<Rightarrow> game \<Rightarrow> game" where
  "updateKeyMap key v s = s\<lparr>keyMap := (keyMap s)(key := v)\<rparr>"

definition setSelectedBlockType :: "blockType \<Rightarrow> game \<Rightarrow> game" where
  "setSelectedBlockType blockType s = s\<lparr>selectedBlockType := blockType\<rparr>"

section \<open>The frame update\<close>

definition degToRad :: "real \<Rightarrow> real" where
  "degToRad degrees = degrees * (pi / 180)"

text \<open>
  The six \<^verbatim>\<open>if\<close> statements of lines 237 to 252 run in sequence on the three
  accumulators; \<^verbatim>\<open>dt\<close> is the frame time of the engine's clock.
\<close>

definition movement :: "real \<Rightarrow> game \<Rightarrow> vec3" where
  "movement dt s =
     (let playerMoveSpeed = 10;
          h = camH (camera s);
          (x0, y0, z0) = (0, 0, 0);
          (x1, y1) = (if keyMap s Forward
             then (x0 - dt * playerMoveSpeed * sin (degToRad h), y0 + dt * playerMoveSpeed * cos (degToRad h))
             else (x0, y0));
          (x2, y2) = (if keyMap s Backward
             then (x1 + dt * playerMoveSpeed * sin (degToRad h), y1 - dt * playerMoveSpeed * cos (degToRad h))
             else (x1, y1));
          (x3, y3) = (if keyMap s MoveLeft
             then (x2 - dt * playerMoveSpeed * cos (degToRad h), y2 - dt * playerMoveSpeed * sin (degToRad h))
             else (x2, y2));
          (x4, y4) = (if keyMap s MoveRight
             then (x3 + dt * playerMoveSpeed * cos (degToRad h), y3 + dt * playerMoveSpeed * sin (degToRad h))
             else (x3, y3));
          z1 = (if keyMap s MoveUp then z0 + dt * playerMoveSpeed else z0);
          z2 = (if keyMap s MoveDown then z1 - dt * playerMoveSpeed else z1)
      in (x4, y4, z2))"

definition swing :: "real \<Rightarrow> real \<times> real \<Rightarrow> game \<Rightarrow> game" where
  "swing dt md s =
     (let mouseX = fst md;
          mouseY = snd md;
          mouseChangeX = mouseX - lastMouseX s;
          mouseChangeY = mouseY - lastMouseY s;
          factor = 10;
          currentH = camH (camera s);
          currentP = camP (camera s)
      in s\<lparr>cameraSwingFactor := Some factor,
           camera := (camera s)\<lparr>camH := currentH - mouseChangeX * dt * factor,
                                camP := min 90 (max (- 90) (currentP - mouseChangeY * dt * factor)),
                                camR := 0\<rparr>,
           lastMouseX := mouseX, lastMouseY := mouseY\<rparr>)"

definition update :: "real \<Rightarrow> real \<times> real \<Rightarrow> game \<Rightarrow> game" where
  "update dt md s =
     (if menuActive s then s
      else
        (let (x_movement, y_movement, z_movement) = movement dt s;
             s1 = s\<lparr>camera := (camera s)\<lparr>camX := camX (camera s) + x_movement,
                                         camY := camY (camera s) + y_movement,
                                         camZ := camZ (camera s) + z_movement\<rparr>\<rparr>
         in if cameraSwingActivated s1 then swing dt md s1 else s1))"

text \<open>
  The update task as the task manager runs it. Line 230 reads \<^verbatim>\<open>self.globalClock\<close>,
  an attribute that \<^verbatim>\<open>MyGame\<close> never sets: \<open>globalClock\<close> is the frame time of
  that clock when the engine's base class provides the attribute, and \<open>None\<close> when it
  does not, in which case the read raises. A paused frame returns before the read.
\<close>

definition updateTask :: "real option \<Rightarrow> real \<times> real \<Rightarrow> game \<Rightarrow> error + game" where
  "updateTask globalClock md s =
     (if menuActive s then Inr s
      else (case globalClock of
              None \<Rightarrow> Inl AttributeError
            | Some dt \<Rightarrow> Inr (update dt md s)))"

section \<open>The engine\<close>

text \<open>
  Two calls into the engine decide what a click does:
  \<^verbatim>\<open>CollisionHandlerQueue.sortEntries\<close> and \<^verbatim>\<open>NodePath.getDistance\<close>. The engine
  computes in single precision, measures through the transforms of both nodes, and does
  not fix the order of entries at equal distance. Both calls are therefore parameters of
  the model: a statement with an engine \<open>eng\<close> in it holds for every engine.
\<close>

record engine =
  sortEntries :: "entry list \<Rightarrow> entry list"
  getDistance :: "blockNode \<Rightarrow> cameraNode \<Rightarrow> real"

text \<open>What \<^verbatim>\<open>sortEntries\<close> promises: the same entries, in ascending order of distance.\<close>

definition sortsByDistance :: "engine \<Rightarrow> bool" where
  "sortsByDistance eng =
     (\<forall>q. mset (sortEntries eng q) = mset q \<and> sorted (map entryDistance (sortEntries eng q)))"

text \<open>
  An engine that measures exactly and keeps the queue order of equal entries. The
  examples use it on queues whose entries have different distances and on distances a
  unit or more away from the two bounds, where single precision gives the same order and
  the same side of each bound.
\<close>

definition exactEngine :: engine where
  "exactEngine =
     \<lparr>sortEntries = sort_key entryDistance,
      getDistance = (\<lambda>b c. case npos b of (px, py, pz) \<Rightarrow>
         sqrt ((px - camX c)\<^sup>2 + (py - camY c)\<^sup>2 + (pz - camZ c)\<^sup>2))\<rparr>"

section \<open>Removing and placing blocks\<close>

definition findNode :: "nat \<Rightarrow> blockNode list \<Rightarrow> blockNode option" where
  "findNode n bs = find (\<lambda>b. nid b = n) bs"

definition removeNode :: "nat \<Rightarrow> blockNode list \<Rightarrow> blockNode list" where
  "removeNode n bs = filter (\<lambda>b. nid b \<noteq> n) bs"

text \<open>
  Lines 293 to 297 and 307 to 311: entry 0 of the sorted queue, the node its
  \<^verbatim>\<open>owner\<close> tag names, and that node's distance from the camera.
\<close>

definition nearestHit :: "engine \<Rightarrow> game \<Rightarrow> entry" where
  "nearestHit eng s = hd (sortEntries eng (rayQueue s))"

definition hitOwner :: "engine \<Rightarrow> game \<Rightarrow> error + (entry \<times> blockNode)" where
  "hitOwner eng s =
     (let rayHit = nearestHit eng s in
      case ownerTag s (intoNodePath rayHit) of
        None \<Rightarrow> Inl AttributeError
      | Some hitObject \<Rightarrow>
          (case findNode hitObject (blocks s) of
             None \<Rightarrow> Inl AssertionError
           | Some b \<Rightarrow> Inr (rayHit, b)))"

definition removeBlock :: "engine \<Rightarrow> game \<Rightarrow> error + game" where
  "removeBlock eng s =
     (if length (rayQueue s) > 0 then
        (case hitOwner eng s of
           Inl e \<Rightarrow> Inl e
         | Inr (rayHit, hitObject) \<Rightarrow>
             (let s1 = s\<lparr>rayQueue := sortEntries eng (rayQueue s)\<rparr>;
                  distanceFromPlayer = getDistance eng hitObject (camera s1)
              in if distanceFromPlayer < 12
                 then Inr (s1\<lparr>ownerTag := (ownerTag s1)(intoNodePath rayHit := None),
                              blocks := removeNode (nid hitObject) (blocks s1)\<rparr>)
                 else Inr s1))
      else Inr s)"

text \<open>
  Line 309 asks for the normal relative to the collision node that was hit, which is
  what the entry holds; line 315 adds it to the position the block has under
  \<^verbatim>\<open>render\<close>.
\<close>

definition placeBlock :: "engine \<Rightarrow> game \<Rightarrow> error + game" where
  "placeBlock eng s =
     (if length (rayQueue s) > 0 then
        (case hitOwner eng s of
           Inl e \<Rightarrow> Inl e
         | Inr (rayHit, hitObject) \<Rightarrow>
             (let s1 = s\<lparr>rayQueue := sortEntries eng (rayQueue s)\<rparr>;
                  normal = surfaceNormal rayHit;
                  distanceFromPlayer = getDistance eng hitObject (camera s1)
              in if distanceFromPlayer < 14
                 then (let hitBlockPos = npos hitObject;
                           newBlockPos = vadd hitBlockPos (vscale normal 2)
                       in Inr (createNewBlock (vx newBlockPos) (vy newBlockPos) (vz newBlockPos)
                                 (selectedBlockType s1) s1))
                 else Inr s1))
      else Inr s)"

definition handleLeftClick :: "engine \<Rightarrow> real \<times> real \<Rightarrow> game \<Rightarrow> error + game" where
  "handleLeftClick eng md s = removeBlock eng (captureMouse md s)"

text \<open>
  A direction given in the frame of a node with orientation \<open>(0, p, 0)\<close>, as the
  node's parent sees it: pitch turns the node about its X axis and lifts its Y axis
  towards Z. \<^verbatim>\<open>createNewBlock\<close> gives a block pitch 90 (grass) or 0, and its collision
  node is attached below it with no transform of its own.
\<close>

definition pitchToParent :: "real \<Rightarrow> vec3 \<Rightarrow> vec3" where
  "pitchToParent p v =
     (case v of (x, y, z) \<Rightarrow>
        (x, y * cos (degToRad p) - z * sin (degToRad p), y * sin (degToRad p) + z * cos (degToRad p)))"

section \<open>Controls\<close>

text \<open>
  \<^verbatim>\<open>setupControls\<close> registers one handler per event name. The handlers are the bound
  methods with their extra arguments; \<^verbatim>\<open>str\<close> is Python's decimal rendering of the
  loop index.
\<close>

datatype handler =
    ToggleMenu
  | PlaceBlock
  | HandleLeftClick
  | UpdateKeyMap action bool
  | SetSelectedBlockType blockType

fun str :: "nat \<Rightarrow> string" where
  "str n = (if n < 10 then [''0123456789'' ! n] else str (n div 10) @ [''0123456789'' ! (n mod 10)])"

declare str.simps [simp del]

definition setupControls :: "(string \<times> handler) list" where
  "setupControls =
     [(''escape'', ToggleMenu), (''mouse1'', PlaceBlock), (''mouse3'', HandleLeftClick)]
     @ concat (map (\<lambda>(key, action). [(key, UpdateKeyMap action True), (key @ ''-up'', UpdateKeyMap action False)])
         [(''w'', Forward), (''s'', Backward), (''a'', MoveLeft), (''d'', MoveRight),
          (''space'', MoveUp), (''lshift'', MoveDown)])
     @ map (\<lambda>(i, blockType). (str i, SetSelectedBlockType blockType))
         (enumerate 1 [Grass, Dirt, Sand, Stone])"

fun call :: "engine \<Rightarrow> real \<times> real \<Rightarrow> handler \<Rightarrow> game \<Rightarrow> error + game" where
  "call eng md ToggleMenu s = Inr (toggleMenu md s)"
| "call eng md PlaceBlock s = placeBlock eng s"
| "call eng md HandleLeftClick s = handleLeftClick eng md s"
| "call eng md (UpdateKeyMap key v) s = Inr (updateKeyMap key v s)"
| "call eng md (SetSelectedBlockType blockType) s = Inr (setSelectedBlockType blockType s)"

text \<open>An event with no registered handler is ignored.\<close>

definition dispatch :: "engine \<Rightarrow> real \<times> real \<Rightarrow> string \<Rightarrow> game \<Rightarrow> error + game" where
  "dispatch eng md ev s =
     (case map_of setupControls ev of None \<Rightarrow> Inr s | Some h \<Rightarrow> call eng md h s)"

section \<open>Start-up and the engine's loop\<close>

text \<open>
  The attributes as \<^verbatim>\<open>__init__\<close> sets them before it builds the scene. The two
  \<^verbatim>\<open>lastMouse\<close> attributes do not exist until \<^verbatim>\<open>captureMouse\<close> first runs,
  which \<^verbatim>\<open>__init__\<close> does before the update task is added.
\<close>

definition initGame :: game where
  "initGame =
     \<lparr>selectedBlockType = Grass, menuActive = False, cameraSwingActivated = False,
      keyMap = (\<lambda>_. False), lastMouseX = 0, lastMouseY = 0, cameraSwingFactor = None,
      camera = \<lparr>camX = 0, camY = 0, camZ = 0, camH = 0, camP = 0, camR = 0\<rparr>,
      blocks = [], ownerTag = (\<lambda>_. None), nextNode = 0, rayQueue = [],
      menuShown = False, cursorHidden = False, mouseMode = M_absolute\<rparr>"

definition setupCamera :: "game \<Rightarrow> game" where
  "setupCamera s = s\<lparr>camera := (camera s)\<lparr>camX := 0, camY := 0, camZ := 3\<rparr>, rayQueue := []\<rparr>"

definition newGame :: "real \<times> real \<Rightarrow> game" where
  "newGame md = captureMouse md (setupCamera (generateTerrain initGame))"

text \<open>
  What the engine does to a running game: it delivers an input event, it runs the update
  task for a frame, or its collision traverser refills the queue registered at line 102.
\<close>

datatype input =
    Event "real \<times> real" string
  | Frame "real option" "real \<times> real"
  | Traverse "entry list"

definition step :: "engine \<Rightarrow> input \<Rightarrow> game \<Rightarrow> error + game" where
  "step eng i s =
     (case i of
        Event md ev \<Rightarrow> dispatch eng md ev s
      | Frame globalClock md \<Rightarrow> updateTask globalClock md s
      | Traverse q \<Rightarrow> Inr (s\<lparr>rayQueue := q\<rparr>))"

fun run :: "engine \<Rightarrow> input list \<Rightarrow> game \<Rightarrow> error + game" where
  "run eng [] s = Inr s"
| "run eng (i # is) s = (case step eng i s of Inl e \<Rightarrow> Inl e | Inr s' \<Rightarrow> run eng is s')"

section \<open>Example games\<close>

definition pausedGame :: game where
  "pausedGame =
     \<lparr>selectedBlockType = Grass, menuActive = True, cameraSwingActivated = True,
      keyMap = (\<lambda>_. True), lastMouseX = 0, lastMouseY = 0, cameraSwingFactor = None,
      camera = \<lparr>camX = 0, camY = 0, camZ = 3, camH = 45, camP = 10, camR = 0\<rparr>,
      blocks = [], ownerTag = (\<lambda>_. None), nextNode = 0, rayQueue = [],
      menuShown = True, cursorHidden = False, mouseMode = M_absolute\<rparr>"

text \<open>
  Two dirt blocks, one below the other, and a camera straight above them at height
  \<open>h\<close> looking down: the ray meets the upper block first, but the queue holds the
  lower one first.
\<close>

definition twoBlocks :: "blockNode list" where
  "twoBlocks =
     [\<lparr>nid = 0, npos = (0, 0, 0), nhpr = (0, 0, 0), nmodel = Dirt\<rparr>,
      \<lparr>nid = 1, npos = (0, 0, - 2), nhpr = (0, 0, 0), nmodel = Dirt\<rparr>]"

definition lookingDown :: "real \<Rightarrow> game" where
  "lookingDown h =
     initGame\<lparr>selectedBlockType := Stone, cameraSwingActivated := True,
       camera := \<lparr>camX = 0, camY = 0, camZ = h, camH = 0, camP = - 90, camR = 0\<rparr>,
       blocks := twoBlocks,
       ownerTag := (\<lambda>_. None)(0 := Some 0, 1 := Some 1),
       nextNode := 2,
       rayQueue := [\<lparr>intoNodePath = 1, surfaceNormal = (0, 0, 1), entryDistance = h + 1\<rparr>,
                    \<lparr>intoNodePath = 0, surfaceNormal = (0, 0, 1), entryDistance = h - 1\<rparr>]\<rparr>"

text \<open>
  One grass block at the origin, made by \<^verbatim>\<open>createNewBlock\<close>, with the camera 10
  units above it looking down and stone selected. The ray meets the top face of the
  block. The block has pitch 90, so in the frame of its collision node that face is the
  one with normal \<open>(0, 1, 0)\<close>.
\<close>

definition grassTop :: game where
  "grassTop =
     (createNewBlock 0 0 0 Grass initGame)
       \<lparr>selectedBlockType := Stone,
        camera := \<lparr>camX = 0, camY = 0, camZ = 10, camH = 0, camP = - 90, camR = 0\<rparr>,
        rayQueue := [\<lparr>intoNodePath = 0, surfaceNormal = (0, 1, 0), entryDistance = 9\<rparr>]\<rparr>"

section \<open>Terrain generation\<close>

lemma terrainBlock_effect:
  "terrainBlock z y x s =
     s\<lparr>blocks := blocks s @ [terrainNode (nextNode s) z y x],
       ownerTag := (ownerTag s)(nextNode s := Some (nextNode s)),
       nextNode := Suc (nextNode s)\<rparr>"
  by (simp add: terrainBlock_def createNewBlock_def terrainNode_def Let_def)

text \<open>One loop at a time, innermost first, each for any bound of its range.\<close>

lemma terrain_row:
  "blocks (fold (terrainBlock z y) [0..<n] s) =
     blocks s @ map (\<lambda>x. terrainNode (nextNode s + x) z y x) [0..<n] \<and>
   nextNode (fold (terrainBlock z y) [0..<n] s) = nextNode s + n \<and>
   camera (fold (terrainBlock z y) [0..<n] s) = camera s"
  by (induction n) (simp_all add: terrainBlock_effect)

lemma terrain_layer:
  "blocks (fold (\<lambda>y. fold (terrainBlock z y) [0..<20]) [0..<m] s) =
     blocks s @ concat (map (\<lambda>y. map (\<lambda>x. terrainNode (nextNode s + (20 * y + x)) z y x) [0..<20]) [0..<m]) \<and>
   nextNode (fold (\<lambda>y. fold (terrainBlock z y) [0..<20]) [0..<m] s) = nextNode s + 20 * m \<and>
   camera (fold (\<lambda>y. fold (terrainBlock z y) [0..<20]) [0..<m] s) = camera s"
  by (induction m) (simp_all add: terrain_row add.assoc)

lemma terrain_all:
  "blocks (fold (\<lambda>z. fold (\<lambda>y. fold (terrainBlock z y) [0..<20]) [0..<20]) [0..<k] s) =
     blocks s @ concat (map (\<lambda>z. concat (map (\<lambda>y.
        map (\<lambda>x. terrainNode (nextNode s + (400 * z + (20 * y + x))) z y x) [0..<20]) [0..<20])) [0..<k]) \<and>
   nextNode (fold (\<lambda>z. fold (\<lambda>y. fold (terrainBlock z y) [0..<20]) [0..<20]) [0..<k] s) = nextNode s + 400 * k \<and>
   camera (fold (\<lambda>z. fold (\<lambda>y. fold (terrainBlock z y) [0..<20]) [0..<20]) [0..<k] s) = camera s"
  by (induction k) (simp_all add: terrain_layer add.assoc)

lemma generateTerrain_blocks:
  "blocks (generateTerrain s) =
     blocks s @ [terrainNode (nextNode s + (400 * z + (20 * y + x))) z y x.
                   z \<leftarrow> [0..<10], y \<leftarrow> [0..<20], x \<leftarrow> [0..<20]]"
  by (simp only: generateTerrain_def terrain_all)

lemma generateTerrain_camera: "camera (generateTerrain s) = camera s"
  by (simp only: generateTerrain_def terrain_all)

lemma terrain_length:
  "length [f z y x. z \<leftarrow> [0..<10], y \<leftarrow> [0..<20], x \<leftarrow> [0..<(20::nat)]] = 4000"
  by (simp add: length_concat comp_def sum_list_triv)

lemma layer_filter:
  "filter (\<lambda>b. nmodel b = t) (concat (map (\<lambda>y. map (\<lambda>x. terrainNode (i y x) z y x) xs) ys)) =
     (if t = (if z = 0 then Grass else Dirt)
      then concat (map (\<lambda>y. map (\<lambda>x. terrainNode (i y x) z y x) xs) ys) else [])"
  by (induction ys) (auto simp: terrainNode_def filter_map comp_def)

lemma layer_count:
  "length (filter (\<lambda>b. nmodel b = t)
      (concat (map (\<lambda>y. map (\<lambda>x. terrainNode (i y x) z y x) [0..<20]) [0..<20]))) =
     (if t = (if z = 0 then Grass else Dirt) then 400 else 0)"
  by (simp add: layer_filter length_concat comp_def sum_list_triv)

lemma layers_count:
  "length (filter (\<lambda>b. nmodel b = t)
      (concat (map (\<lambda>z. concat (map (\<lambda>y. map (\<lambda>x. terrainNode (i z y x) z y x) [0..<20]) [0..<20])) zs))) =
     sum_list (map (\<lambda>z. if t = (if z = 0 then Grass else Dirt) then 400 else 0) zs)"
  by (induction zs) (simp_all only: list.map concat.simps filter_append length_append layer_count
      filter.simps list.size sum_list.Nil sum_list.Cons)

lemma terrain_counts:
  "length (filter (\<lambda>b. nmodel b = Grass)
      [terrainNode (i z y x) z y x. z \<leftarrow> [0..<10], y \<leftarrow> [0..<20], x \<leftarrow> [0..<20]]) = 400 \<and>
   length (filter (\<lambda>b. nmodel b = Dirt)
      [terrainNode (i z y x) z y x. z \<leftarrow> [0..<10], y \<leftarrow> [0..<20], x \<leftarrow> [0..<20]]) = 3600"
  by (simp only: layers_count) (simp add: upt_rec)

lemma triple_list:
  "[g z y x. z \<leftarrow> zs, y \<leftarrow> ys, x \<leftarrow> xs] =
     map (\<lambda>(z, y, x). g z y x) (List.product zs (List.product ys xs))"
  by (simp add: product_concat_map map_concat comp_def)

lemma terrain_positions_distinct:
  "distinct [(real_of_int (int x * 2 - 20), real_of_int (int y * 2 - 20), real_of_int (- int z * 2)).
      z \<leftarrow> [0..<10], y \<leftarrow> [0..<20], x \<leftarrow> [0..<(20::nat)]]"
  unfolding triple_list
  by (rule iffD2 [OF distinct_map]) (auto simp: distinct_product inj_on_def)

lemma terrain_positions:
  "map npos [terrainNode (i z y x) z y x. z \<leftarrow> zs, y \<leftarrow> ys, x \<leftarrow> xs] =
     [(real_of_int (int x * 2 - 20), real_of_int (int y * 2 - 20), real_of_int (- int z * 2)).
        z \<leftarrow> zs, y \<leftarrow> ys, x \<leftarrow> xs]"
  by (simp add: map_concat comp_def terrainNode_def)

text \<open>
  C3. Terrain generation appends to the scene one block for each triple \<open>(z, y, x)\<close>
  with \<open>z < 10\<close>, \<open>y < 20\<close> and \<open>x < 20\<close>, in loop order, at
  \<open>(2x - 20, 2y - 20, -2z)\<close>, grass when \<open>z = 0\<close> and dirt otherwise: 4000 blocks at
  4000 different positions, 400 of them grass and 3600 dirt. At start-up the scene holds
  no block before, so these are all its blocks.
\<close>

theorem generateTerrain_4000_blocks:
  "blocks (generateTerrain s) =
     blocks s @
       [\<lparr>nid = nextNode s + (400 * z + (20 * y + x)),
         npos = (real_of_int (int x * 2 - 20), real_of_int (int y * 2 - 20), real_of_int (- int z * 2)),
         nhpr = (if z = 0 then (0, 90, 0) else (0, 0, 0)),
         nmodel = (if z = 0 then Grass else Dirt)\<rparr>.
        z \<leftarrow> [0..<10], y \<leftarrow> [0..<20], x \<leftarrow> [0..<20]] \<and>
   length (blocks (generateTerrain s)) = length (blocks s) + 4000 \<and>
   blocks initGame = [] \<and>
   length (blocks (generateTerrain initGame)) = 4000 \<and>
   length (filter (\<lambda>b. nmodel b = Grass) (blocks (generateTerrain initGame))) = 400 \<and>
   length (filter (\<lambda>b. nmodel b = Dirt) (blocks (generateTerrain initGame))) = 3600 \<and>
   distinct (map npos (blocks (generateTerrain initGame)))"
proof -
  have i: "blocks initGame = []" by (simp add: initGame_def)
  have 1: "blocks (generateTerrain s) =
     blocks s @
       [\<lparr>nid = nextNode s + (400 * z + (20 * y + x)),
         npos = (real_of_int (int x * 2 - 20), real_of_int (int y * 2 - 20), real_of_int (- int z * 2)),
         nhpr = (if z = 0 then (0, 90, 0) else (0, 0, 0)),
         nmodel = (if z = 0 then Grass else Dirt)\<rparr>.
        z \<leftarrow> [0..<10], y \<leftarrow> [0..<20], x \<leftarrow> [0..<20]]"
    by (simp only: generateTerrain_blocks terrainNode_def)
  have 2: "length (blocks (generateTerrain s)) = length (blocks s) + 4000"
    by (simp only: generateTerrain_blocks length_append terrain_length)
  have 3: "length (blocks (generateTerrain initGame)) = 4000"
    by (simp only: generateTerrain_blocks i append_Nil terrain_length)
  have 4: "length (filter (\<lambda>b. nmodel b = Grass) (blocks (generateTerrain initGame))) = 400"
    by (simp only: generateTerrain_blocks i append_Nil terrain_counts)
  have 5: "length (filter (\<lambda>b. nmodel b = Dirt) (blocks (generateTerrain initGame))) = 3600"
    by (simp only: generateTerrain_blocks i append_Nil terrain_counts)
  have 6: "distinct (map npos (blocks (generateTerrain initGame)))"
    by (simp only: generateTerrain_blocks i append_Nil terrain_positions terrain_positions_distinct)
  show ?thesis using i 1 2 3 4 5 6 by blast
qed

section \<open>Facts about the queue, the scene and distances\<close>

lemma sortsByDistance_sorted:
  "sortsByDistance eng \<Longrightarrow> sorted (map entryDistance (sortEntries eng q))"
  by (simp add: sortsByDistance_def)

lemma sortsByDistance_mset: "sortsByDistance eng \<Longrightarrow> mset (sortEntries eng q) = mset q"
  by (simp add: sortsByDistance_def)

lemma sortsByDistance_set: "sortsByDistance eng \<Longrightarrow> set (sortEntries eng q) = set q"
  by (metis sortsByDistance_mset set_mset_mset)

lemma sortsByDistance_Nil: "sortsByDistance eng \<Longrightarrow> sortEntries eng q = [] \<longleftrightarrow> q = []"
  by (metis sortsByDistance_mset mset_zero_iff)

lemma exactEngine_sorts: "sortsByDistance exactEngine"
  by (simp add: sortsByDistance_def exactEngine_def)

lemma hd_sorted_least:
  assumes "sorted (map f xs)" and "x \<in> set xs"
  shows "f (hd xs) \<le> f x"
proof (cases xs)
  case Nil
  with assms show ?thesis by simp
next
  case (Cons y ys)
  with assms show ?thesis by auto
qed

lemma nearestHit_in_queue:
  assumes "sortsByDistance eng" and "rayQueue s \<noteq> []"
  shows "nearestHit eng s \<in> set (rayQueue s)"
proof -
  have "sortEntries eng (rayQueue s) \<noteq> []"
    using assms by (simp add: sortsByDistance_Nil)
  then have "hd (sortEntries eng (rayQueue s)) \<in> set (sortEntries eng (rayQueue s))" by simp
  then show ?thesis using assms(1) by (simp add: nearestHit_def sortsByDistance_set)
qed

lemma nearestHit_least:
  assumes "sortsByDistance eng" and "e \<in> set (rayQueue s)"
  shows "entryDistance (nearestHit eng s) \<le> entryDistance e"
  unfolding nearestHit_def
  using assms by (intro hd_sorted_least) (simp_all add: sortsByDistance_sorted sortsByDistance_set)

lemma findNode_Some: "findNode n bs = Some b \<Longrightarrow> nid b = n \<and> b \<in> set bs"
  by (auto simp: findNode_def find_Some_iff)

lemma findNode_removeNode_same: "findNode n (removeNode n bs) = None"
  by (simp add: findNode_def removeNode_def find_None_iff)

lemma findNode_removeNode_other: "m \<noteq> n \<Longrightarrow> findNode m (removeNode n bs) = findNode m bs"
  by (induction bs) (auto simp: findNode_def removeNode_def)

lemma hitOwner_found:
  "ownerTag s (intoNodePath (nearestHit eng s)) = Some n \<Longrightarrow> findNode n (blocks s) = Some b
     \<Longrightarrow> hitOwner eng s = Inr (nearestHit eng s, b)"
  by (simp add: hitOwner_def)

lemma removeBlock_empty: "rayQueue s = [] \<Longrightarrow> removeBlock eng s = Inr s"
  by (simp add: removeBlock_def)

lemma placeBlock_empty: "rayQueue s = [] \<Longrightarrow> placeBlock eng s = Inr s"
  by (simp add: placeBlock_def)

lemma removeBlock_hit:
  assumes "rayQueue s \<noteq> []" and "ownerTag s (intoNodePath (nearestHit eng s)) = Some n"
    and "findNode n (blocks s) = Some b"
  shows "removeBlock eng s =
     (if getDistance eng b (camera s) < 12
      then Inr (s\<lparr>rayQueue := sortEntries eng (rayQueue s),
                  ownerTag := (ownerTag s)(intoNodePath (nearestHit eng s) := None),
                  blocks := removeNode n (blocks s)\<rparr>)
      else Inr (s\<lparr>rayQueue := sortEntries eng (rayQueue s)\<rparr>))"
  using assms findNode_Some [OF assms(3)]
  by (simp add: removeBlock_def hitOwner_found Let_def)

lemma placeBlock_hit:
  assumes "rayQueue s \<noteq> []" and "ownerTag s (intoNodePath (nearestHit eng s)) = Some n"
    and "findNode n (blocks s) = Some b"
  shows "placeBlock eng s =
     (if getDistance eng b (camera s) < 14
      then Inr (createNewBlock (vx (vadd (npos b) (vscale (surfaceNormal (nearestHit eng s)) 2)))
                  (vy (vadd (npos b) (vscale (surfaceNormal (nearestHit eng s)) 2)))
                  (vz (vadd (npos b) (vscale (surfaceNormal (nearestHit eng s)) 2)))
                  (selectedBlockType s) (s\<lparr>rayQueue := sortEntries eng (rayQueue s)\<rparr>))
      else Inr (s\<lparr>rayQueue := sortEntries eng (rayQueue s)\<rparr>))"
  using assms
  by (simp add: placeBlock_def hitOwner_found Let_def)

lemma dispatch_mouse1: "dispatch eng md ''mouse1'' s = placeBlock eng s"
  by (simp add: dispatch_def setupControls_def)

lemma dispatch_mouse3: "dispatch eng md ''mouse3'' s = removeBlock eng (captureMouse md s)"
  by (simp add: dispatch_def setupControls_def handleLeftClick_def)

lemma removeBlock_keeps:
  assumes "removeBlock eng s = Inr s'"
  shows "selectedBlockType s' = selectedBlockType s \<and> menuActive s' = menuActive s \<and>
     cameraSwingActivated s' = cameraSwingActivated s \<and> keyMap s' = keyMap s \<and>
     lastMouseX s' = lastMouseX s \<and> lastMouseY s' = lastMouseY s \<and>
     cameraSwingFactor s' = cameraSwingFactor s \<and> camera s' = camera s \<and>
     nextNode s' = nextNode s \<and> menuShown s' = menuShown s \<and>
     cursorHidden s' = cursorHidden s \<and> mouseMode s' = mouseMode s \<and>
     rayQueue s' = (if rayQueue s = [] then [] else sortEntries eng (rayQueue s))"
  using assms
  by (auto simp: removeBlock_def Let_def split: if_splits sum.splits prod.splits)

lemma placeBlock_keeps:
  assumes "placeBlock eng s = Inr s'"
  shows "selectedBlockType s' = selectedBlockType s \<and> menuActive s' = menuActive s \<and>
     cameraSwingActivated s' = cameraSwingActivated s \<and> keyMap s' = keyMap s \<and>
     lastMouseX s' = lastMouseX s \<and> lastMouseY s' = lastMouseY s \<and>
     cameraSwingFactor s' = cameraSwingFactor s \<and> camera s' = camera s \<and>
     menuShown s' = menuShown s \<and>
     cursorHidden s' = cursorHidden s \<and> mouseMode s' = mouseMode s \<and>
     rayQueue s' = (if rayQueue s = [] then [] else sortEntries eng (rayQueue s))"
  using assms
  by (auto simp: placeBlock_def createNewBlock_def Let_def
      split: if_splits sum.splits prod.splits)

lemma placeBlock_blocks:
  assumes "placeBlock eng s = Inr s'"
  shows "blocks s' = blocks s \<or>
     (\<exists>p h. blocks s' = blocks s @ [\<lparr>nid = nextNode s, npos = p, nhpr = h, nmodel = selectedBlockType s\<rparr>])"
  using assms
  by (auto simp: placeBlock_def createNewBlock_def Let_def split: if_splits sum.splits prod.splits)

lemma unsorted_queue_changes:
  assumes "sortsByDistance eng" and "\<not> sorted (map entryDistance (rayQueue s))"
  shows "removeBlock eng s \<noteq> Inr s \<and> placeBlock eng s \<noteq> Inr s"
proof -
  have q: "rayQueue s \<noteq> sortEntries eng (rayQueue s)"
    using assms sortsByDistance_sorted [of eng "rayQueue s"] by auto
  have e: "rayQueue s \<noteq> []" using assms(2) by auto
  have "removeBlock eng s \<noteq> Inr s"
  proof
    assume "removeBlock eng s = Inr s"
    from removeBlock_keeps [OF this] e q show False by simp
  qed
  moreover have "placeBlock eng s \<noteq> Inr s"
  proof
    assume "placeBlock eng s = Inr s"
    from placeBlock_keeps [OF this] e q show False by simp
  qed
  ultimately show ?thesis by simp
qed

lemma hitOwner_menuActive: "hitOwner eng (s\<lparr>menuActive := m\<rparr>) = hitOwner eng s"
  by (simp add: hitOwner_def nearestHit_def Let_def split: option.splits)

lemma removeBlock_menuActive:
  "removeBlock eng (s\<lparr>menuActive := m\<rparr>) = map_sum id (\<lambda>t. t\<lparr>menuActive := m\<rparr>) (removeBlock eng s)"
  by (auto simp: removeBlock_def hitOwner_menuActive Let_def split: sum.splits)

lemma placeBlock_menuActive:
  "placeBlock eng (s\<lparr>menuActive := m\<rparr>) = map_sum id (\<lambda>t. t\<lparr>menuActive := m\<rparr>) (placeBlock eng s)"
  by (auto simp: placeBlock_def hitOwner_menuActive createNewBlock_def Let_def split: sum.splits)

lemma captureMouse_menuActive:
  "captureMouse md (s\<lparr>menuActive := m\<rparr>) = (captureMouse md s)\<lparr>menuActive := m\<rparr>"
  by (simp add: captureMouse_def)

lemma hitOwner_captureMouse: "hitOwner eng (captureMouse md s) = hitOwner eng s"
  by (simp add: hitOwner_def nearestHit_def captureMouse_def Let_def split: option.splits)

lemma removeBlock_captureMouse:
  "removeBlock eng (captureMouse md s) = map_sum id (captureMouse md) (removeBlock eng s)"
  by (auto simp: removeBlock_def hitOwner_captureMouse Let_def split: sum.splits)
    (simp_all add: captureMouse_def)

text \<open>The example with two blocks, for the exact engine.\<close>

lemma sortEntries_lookingDown:
  "sortEntries exactEngine (rayQueue (lookingDown h)) =
     [\<lparr>intoNodePath = 0, surfaceNormal = (0, 0, 1), entryDistance = h - 1\<rparr>,
      \<lparr>intoNodePath = 1, surfaceNormal = (0, 0, 1), entryDistance = h + 1\<rparr>]"
  by (simp add: lookingDown_def exactEngine_def)

lemma nearestHit_lookingDown:
  "nearestHit exactEngine (lookingDown h) =
     \<lparr>intoNodePath = 0, surfaceNormal = (0, 0, 1), entryDistance = h - 1\<rparr>"
  by (simp add: nearestHit_def sortEntries_lookingDown)

lemma queue_lookingDown: "rayQueue (lookingDown h) \<noteq> []"
  by (simp add: lookingDown_def)

lemma unsorted_lookingDown: "\<not> sorted (map entryDistance (rayQueue (lookingDown h)))"
  by (simp add: lookingDown_def)

lemma ownerTag_lookingDown:
  "ownerTag (lookingDown h) (intoNodePath (nearestHit exactEngine (lookingDown h))) = Some 0"
  by (simp add: nearestHit_lookingDown) (simp add: lookingDown_def)

lemma findNode_lookingDown:
  "findNode 0 (blocks (lookingDown h)) = Some \<lparr>nid = 0, npos = (0, 0, 0), nhpr = (0, 0, 0), nmodel = Dirt\<rparr>"
  by (simp add: findNode_def twoBlocks_def lookingDown_def)

lemma getDistance_lookingDown:
  "0 \<le> h \<Longrightarrow>
     getDistance exactEngine \<lparr>nid = 0, npos = (0, 0, 0), nhpr = (0, 0, 0), nmodel = Dirt\<rparr>
       (camera (lookingDown h)) = h"
  by (simp add: exactEngine_def lookingDown_def)

lemma placeBlock_lookingDown:
  assumes "0 \<le> h" and "h < 14"
  shows "placeBlock exactEngine (lookingDown h) =
     Inr (createNewBlock 0 0 2 Stone
            ((lookingDown h)\<lparr>rayQueue := sortEntries exactEngine (rayQueue (lookingDown h))\<rparr>))"
proof -
  let ?s = "lookingDown h"
  have v: "vadd (0, 0, 0) (vscale (surfaceNormal (nearestHit exactEngine ?s)) 2) = (0, 0, 2)"
    by (simp add: nearestHit_lookingDown vadd_def vscale_def)
  have st: "selectedBlockType ?s = Stone" by (simp add: lookingDown_def)
  show ?thesis
    using placeBlock_hit [OF queue_lookingDown ownerTag_lookingDown findNode_lookingDown, of h] assms
    by (simp add: getDistance_lookingDown v st vx_def vy_def vz_def)
qed

lemma removeBlock_lookingDown:
  assumes "0 \<le> h" and "h < 12"
  shows "removeBlock exactEngine (lookingDown h) =
     Inr ((lookingDown h)\<lparr>rayQueue := sortEntries exactEngine (rayQueue (lookingDown h)),
            ownerTag := (ownerTag (lookingDown h))(0 := None),
            blocks := [\<lparr>nid = 1, npos = (0, 0, - 2), nhpr = (0, 0, 0), nmodel = Dirt\<rparr>]\<rparr>)"
proof -
  let ?s = "lookingDown h"
  have n: "intoNodePath (nearestHit exactEngine ?s) = 0" by (simp add: nearestHit_lookingDown)
  have r: "removeNode 0 (blocks ?s) = [\<lparr>nid = 1, npos = (0, 0, - 2), nhpr = (0, 0, 0), nmodel = Dirt\<rparr>]"
    by (simp add: lookingDown_def twoBlocks_def removeNode_def)
  show ?thesis
    using removeBlock_hit [OF queue_lookingDown ownerTag_lookingDown findNode_lookingDown, of h] assms
    by (simp add: getDistance_lookingDown n r)
qed

lemma far_lookingDown:
  assumes "0 \<le> h"
  shows "(12 \<le> h \<longrightarrow> removeBlock exactEngine (lookingDown h) =
            Inr ((lookingDown h)\<lparr>rayQueue := sortEntries exactEngine (rayQueue (lookingDown h))\<rparr>)) \<and>
         (14 \<le> h \<longrightarrow> placeBlock exactEngine (lookingDown h) =
            Inr ((lookingDown h)\<lparr>rayQueue := sortEntries exactEngine (rayQueue (lookingDown h))\<rparr>))"
  using removeBlock_hit [OF queue_lookingDown ownerTag_lookingDown findNode_lookingDown, of h]
    placeBlock_hit [OF queue_lookingDown ownerTag_lookingDown findNode_lookingDown, of h] assms
  by (simp add: getDistance_lookingDown)

section \<open>Removal\<close>

text \<open>
  C1. With an empty queue removal does nothing. With a non-empty queue it has the engine
  sort the entries and takes the first; for an engine whose sort returns the entries in
  ascending order of distance that is an entry of the queue no farther than any other.
  When that entry's \<^verbatim>\<open>owner\<close> tag names a block node of the scene, the block is
  removed and the tag cleared exactly when the engine measures less than 12 units from
  the block to the camera; every other block stays. At 12 units or more no block is
  removed.
\<close>

theorem removeBlock_nearest_within_12:
  assumes "sortsByDistance eng"
  shows
  "(rayQueue s = [] \<longrightarrow> removeBlock eng s = Inr s) \<and>
   (rayQueue s \<noteq> [] \<longrightarrow>
      sorted (map entryDistance (sortEntries eng (rayQueue s))) \<and>
      mset (sortEntries eng (rayQueue s)) = mset (rayQueue s) \<and>
      nearestHit eng s = hd (sortEntries eng (rayQueue s)) \<and>
      nearestHit eng s \<in> set (rayQueue s) \<and>
      (\<forall>e \<in> set (rayQueue s). entryDistance (nearestHit eng s) \<le> entryDistance e) \<and>
      (\<forall>n b. ownerTag s (intoNodePath (nearestHit eng s)) = Some n \<and> findNode n (blocks s) = Some b \<longrightarrow>
         (getDistance eng b (camera s) < 12 \<longrightarrow>
            removeBlock eng s =
              Inr (s\<lparr>rayQueue := sortEntries eng (rayQueue s),
                     ownerTag := (ownerTag s)(intoNodePath (nearestHit eng s) := None),
                     blocks := removeNode n (blocks s)\<rparr>) \<and>
            findNode n (removeNode n (blocks s)) = None \<and>
            (\<forall>m. m \<noteq> n \<longrightarrow> findNode m (removeNode n (blocks s)) = findNode m (blocks s))) \<and>
         (12 \<le> getDistance eng b (camera s) \<longrightarrow>
            removeBlock eng s = Inr (s\<lparr>rayQueue := sortEntries eng (rayQueue s)\<rparr>))))"
proof (intro conjI impI allI ballI)
  assume "rayQueue s = []"
  then show "removeBlock eng s = Inr s" by (rule removeBlock_empty)
next
  show "sorted (map entryDistance (sortEntries eng (rayQueue s)))"
    using assms by (rule sortsByDistance_sorted)
next
  show "mset (sortEntries eng (rayQueue s)) = mset (rayQueue s)"
    using assms by (rule sortsByDistance_mset)
next
  show "nearestHit eng s = hd (sortEntries eng (rayQueue s))" by (simp add: nearestHit_def)
next
  assume "rayQueue s \<noteq> []"
  with assms show "nearestHit eng s \<in> set (rayQueue s)" by (rule nearestHit_in_queue)
next
  fix e assume "e \<in> set (rayQueue s)"
  with assms show "entryDistance (nearestHit eng s) \<le> entryDistance e" by (rule nearestHit_least)
next
  fix n b
  assume q: "rayQueue s \<noteq> []"
    and h: "ownerTag s (intoNodePath (nearestHit eng s)) = Some n \<and> findNode n (blocks s) = Some b"
    and d: "getDistance eng b (camera s) < 12"
  show "removeBlock eng s =
      Inr (s\<lparr>rayQueue := sortEntries eng (rayQueue s),
             ownerTag := (ownerTag s)(intoNodePath (nearestHit eng s) := None),
             blocks := removeNode n (blocks s)\<rparr>)"
    using removeBlock_hit [OF q conjunct1 [OF h] conjunct2 [OF h]] d by simp
next
  fix n show "findNode n (removeNode n (blocks s)) = None" by (rule findNode_removeNode_same)
next
  fix n m :: nat assume "m \<noteq> n"
  then show "findNode m (removeNode n (blocks s)) = findNode m (blocks s)"
    by (rule findNode_removeNode_other)
next
  fix n b
  assume q: "rayQueue s \<noteq> []"
    and h: "ownerTag s (intoNodePath (nearestHit eng s)) = Some n \<and> findNode n (blocks s) = Some b"
    and d: "12 \<le> getDistance eng b (camera s)"
  show "removeBlock eng s = Inr (s\<lparr>rayQueue := sortEntries eng (rayQueue s)\<rparr>)"
    using removeBlock_hit [OF q conjunct1 [OF h] conjunct2 [OF h]] d by simp
qed

text \<open>
  The scenario of the specification: the camera 10 units above the block at the origin
  removes it and leaves the block below. From 13 units above both blocks stay, and with
  no ray hit nothing happens.
\<close>

theorem removeBlock_nearest_within_12_witness:
  "sortsByDistance exactEngine \<and>
   rayQueue initGame = [] \<and> removeBlock exactEngine initGame = Inr initGame \<and>
   rayQueue (lookingDown 10) \<noteq> [] \<and>
   intoNodePath (nearestHit exactEngine (lookingDown 10)) = 0 \<and>
   ownerTag (lookingDown 10) 0 = Some 0 \<and>
   getDistance exactEngine \<lparr>nid = 0, npos = (0, 0, 0), nhpr = (0, 0, 0), nmodel = Dirt\<rparr>
     (camera (lookingDown 10)) < 12 \<and>
   removeBlock exactEngine (lookingDown 10) =
     Inr ((lookingDown 10)\<lparr>rayQueue := sortEntries exactEngine (rayQueue (lookingDown 10)),
            ownerTag := (\<lambda>_. None)(1 := Some 1),
            blocks := [\<lparr>nid = 1, npos = (0, 0, - 2), nhpr = (0, 0, 0), nmodel = Dirt\<rparr>]\<rparr>) \<and>
   12 \<le> getDistance exactEngine \<lparr>nid = 0, npos = (0, 0, 0), nhpr = (0, 0, 0), nmodel = Dirt\<rparr>
     (camera (lookingDown 13)) \<and>
   removeBlock exactEngine (lookingDown 13) =
     Inr ((lookingDown 13)\<lparr>rayQueue := sortEntries exactEngine (rayQueue (lookingDown 13))\<rparr>)"
proof -
  let ?s = "lookingDown 10"
  let ?f = "lookingDown 13"
  let ?b = "\<lparr>nid = 0, npos = (0, 0, 0), nhpr = (0, 0, 0), nmodel = Dirt\<rparr>"
  note c = exactEngine_sorts
  have e: "rayQueue initGame = []" by (simp add: initGame_def)
  have n: "intoNodePath (nearestHit exactEngine ?s) = 0" by (simp add: nearestHit_lookingDown)
  have d: "getDistance exactEngine ?b (camera ?s) < 12"
    by (simp add: getDistance_lookingDown)
  have d': "12 \<le> getDistance exactEngine ?b (camera ?f)"
    by (simp add: getDistance_lookingDown)
  have r: "removeNode 0 (blocks ?s) = [\<lparr>nid = 1, npos = (0, 0, - 2), nhpr = (0, 0, 0), nmodel = Dirt\<rparr>]"
    by (simp add: lookingDown_def twoBlocks_def removeNode_def)
  have o: "(ownerTag ?s)(0 := None) = (\<lambda>_. None)(1 := Some 1)"
    by (auto simp: lookingDown_def fun_eq_iff)
  from removeBlock_nearest_within_12 [OF c, of initGame] e
  have 1: "removeBlock exactEngine initGame = Inr initGame" by blast
  from removeBlock_nearest_within_12 [OF c, of ?s] queue_lookingDown [of 10]
    ownerTag_lookingDown [of 10] findNode_lookingDown [of 10] d
  have "removeBlock exactEngine ?s =
      Inr (?s\<lparr>rayQueue := sortEntries exactEngine (rayQueue ?s),
             ownerTag := (ownerTag ?s)(intoNodePath (nearestHit exactEngine ?s) := None),
             blocks := removeNode 0 (blocks ?s)\<rparr>)"
    by blast
  then have 2: "removeBlock exactEngine ?s =
      Inr (?s\<lparr>rayQueue := sortEntries exactEngine (rayQueue ?s),
             ownerTag := (\<lambda>_. None)(1 := Some 1),
             blocks := [\<lparr>nid = 1, npos = (0, 0, - 2), nhpr = (0, 0, 0), nmodel = Dirt\<rparr>]\<rparr>)"
    by (simp only: n r o)
  from removeBlock_nearest_within_12 [OF c, of ?f] queue_lookingDown [of 13]
    ownerTag_lookingDown [of 13] findNode_lookingDown [of 13] d'
  have 3: "removeBlock exactEngine ?f = Inr (?f\<lparr>rayQueue := sortEntries exactEngine (rayQueue ?f)\<rparr>)"
    by blast
  have t': "ownerTag ?s 0 = Some 0" using ownerTag_lookingDown [of 10] by (simp only: n)
  show ?thesis using c e 1 queue_lookingDown [of 10] n t' d 2 d' 3 by blast
qed

section \<open>Placement\<close>

text \<open>
  What placement does for every engine: when the block owning the first entry is less
  than 14 units away, exactly one block of the selected type is appended, at the hit
  block's position plus two times the normal the entry holds.
\<close>

lemma placeBlock_adds_entry_normal:
  assumes "rayQueue s \<noteq> []"
    and "ownerTag s (intoNodePath (nearestHit eng s)) = Some n"
    and "findNode n (blocks s) = Some b"
    and "getDistance eng b (camera s) < 14"
    and "npos b = (bx, by, bz)"
    and "surfaceNormal (nearestHit eng s) = (nx, ny, nz)"
    and "selectedBlockType s = t"
  shows "placeBlock eng s =
     Inr (createNewBlock (bx + nx * 2) (by + ny * 2) (bz + nz * 2) t
            (s\<lparr>rayQueue := sortEntries eng (rayQueue s)\<rparr>))"
proof -
  have v: "vadd (npos b) (vscale (surfaceNormal (nearestHit eng s)) 2) = (bx + nx * 2, by + ny * 2, bz + nz * 2)"
    using assms(5,6) by (simp add: vadd_def vscale_def)
  show ?thesis
    using placeBlock_hit [OF assms(1,2,3)] assms(4,7) by (simp add: v vx_def vy_def vz_def)
qed

lemma grassTop_fields:
  "blocks grassTop = [\<lparr>nid = 0, npos = (0, 0, 0), nhpr = (0, 90, 0), nmodel = Grass\<rparr>] \<and>
   rayQueue grassTop = [\<lparr>intoNodePath = 0, surfaceNormal = (0, 1, 0), entryDistance = 9\<rparr>] \<and>
   ownerTag grassTop 0 = Some 0 \<and> nextNode grassTop = 1 \<and> selectedBlockType grassTop = Stone \<and>
   camera grassTop = \<lparr>camX = 0, camY = 0, camZ = 10, camH = 0, camP = - 90, camR = 0\<rparr>"
  by (simp add: grassTop_def createNewBlock_def initGame_def Let_def)

lemma sort_singleton:
  assumes "sortsByDistance eng"
  shows "sortEntries eng [e] = [e]"
proof -
  have "mset (sortEntries eng [e]) = {#e#}"
    using sortsByDistance_mset [OF assms, of "[e]"] by simp
  then show ?thesis by (simp only: mset_single_iff)
qed

lemma placeBlock_grassTop:
  assumes "sortsByDistance eng"
  shows "placeBlock eng grassTop =
     (if getDistance eng \<lparr>nid = 0, npos = (0, 0, 0), nhpr = (0, 90, 0), nmodel = Grass\<rparr>
           (camera grassTop) < 14
      then Inr (createNewBlock 0 2 0 Stone grassTop)
      else Inr grassTop)"
proof -
  let ?e = "\<lparr>intoNodePath = 0, surfaceNormal = (0, 1, 0), entryDistance = 9\<rparr>"
  let ?b = "\<lparr>nid = 0, npos = (0, 0, 0), nhpr = (0, 90, 0), nmodel = Grass\<rparr>"
  have s: "sortEntries eng (rayQueue grassTop) = rayQueue grassTop"
    using sort_singleton [OF assms, of ?e] by (simp add: grassTop_fields)
  have q: "rayQueue grassTop \<noteq> []" by (simp add: grassTop_fields)
  have n: "nearestHit eng grassTop = ?e"
    by (simp add: nearestHit_def s) (simp add: grassTop_fields)
  have t: "ownerTag grassTop (intoNodePath (nearestHit eng grassTop)) = Some 0"
    by (simp add: n grassTop_fields)
  have f: "findNode 0 (blocks grassTop) = Some ?b"
    by (simp add: grassTop_fields findNode_def)
  have v: "vadd (0, 0, 0) (vscale (surfaceNormal (nearestHit eng grassTop)) 2) = (0, 2, 0)"
    by (simp add: n vadd_def vscale_def)
  have sg: "grassTop\<lparr>rayQueue := sortEntries eng (rayQueue grassTop)\<rparr> = grassTop"
    by (simp only: s) simp
  have st: "selectedBlockType grassTop = Stone" by (simp add: grassTop_fields)
  have np: "npos ?b = (0, 0, 0)" by simp
  show ?thesis
    unfolding placeBlock_hit [OF q t f] sg np v st by (simp add: vx_def vy_def vz_def)
qed

text \<open>
  C2, at a grass block. The camera is 10 units above a grass block at the origin, its
  ray meets the block's top face, and stone is selected. The block was given pitch 90 by
  \<^verbatim>\<open>createNewBlock\<close>, so the normal of that face, which points up along
  \<open>(0, 0, 1)\<close> in the world, is \<open>(0, 1, 0)\<close> in the frame of the collision node,
  and that is the vector line 315 adds. The new block appears at \<open>(0, 2, 0)\<close>, beside
  the grass block, and with no engine that sorts by distance does a block appear at
  \<open>(0, 0, 2)\<close>, one block width out along the face that was hit.
\<close>

theorem placeBlock_beside_grass_block:
  "blocks grassTop = [\<lparr>nid = 0, npos = (0, 0, 0), nhpr = (0, 90, 0), nmodel = Grass\<rparr>] \<and>
   rayQueue grassTop = [\<lparr>intoNodePath = 0, surfaceNormal = (0, 1, 0), entryDistance = 9\<rparr>] \<and>
   pitchToParent 90 (0, 1, 0) = (0, 0, 1) \<and>
   vadd (0, 0, 0) (vscale (pitchToParent 90 (0, 1, 0)) 2) = (0, 0, 2) \<and>
   getDistance exactEngine \<lparr>nid = 0, npos = (0, 0, 0), nhpr = (0, 90, 0), nmodel = Grass\<rparr>
     (camera grassTop) < 14 \<and>
   (\<exists>s'. placeBlock exactEngine grassTop = Inr s' \<and>
      blocks s' = [\<lparr>nid = 0, npos = (0, 0, 0), nhpr = (0, 90, 0), nmodel = Grass\<rparr>,
                   \<lparr>nid = 1, npos = (0, 2, 0), nhpr = (0, 0, 0), nmodel = Stone\<rparr>]) \<and>
   \<not> (\<exists>eng s'. sortsByDistance eng \<and> placeBlock eng grassTop = Inr s' \<and>
         (0, 0, 2) \<in> set (map npos (blocks s')))"
proof -
  let ?b = "\<lparr>nid = 0, npos = (0, 0, 0), nhpr = (0, 90, 0), nmodel = Grass\<rparr>"
  have p: "pitchToParent 90 (0, 1, 0) = (0, 0, 1)"
    by (simp add: pitchToParent_def degToRad_def)
  have w: "vadd (0, 0, 0) (vscale (pitchToParent 90 (0, 1, 0)) 2) = (0, 0, 2)"
    by (simp add: p vadd_def vscale_def)
  have d: "getDistance exactEngine ?b (camera grassTop) = 10"
    by (simp add: exactEngine_def grassTop_fields)
  have "placeBlock exactEngine grassTop = Inr (createNewBlock 0 2 0 Stone grassTop)"
    using placeBlock_grassTop [OF exactEngine_sorts] by (simp add: d)
  moreover have "blocks (createNewBlock 0 2 0 Stone grassTop) =
      [?b, \<lparr>nid = 1, npos = (0, 2, 0), nhpr = (0, 0, 0), nmodel = Stone\<rparr>]"
    by (simp add: createNewBlock_def Let_def grassTop_fields)
  ultimately have ex: "\<exists>s'. placeBlock exactEngine grassTop = Inr s' \<and>
      blocks s' = [?b, \<lparr>nid = 1, npos = (0, 2, 0), nhpr = (0, 0, 0), nmodel = Stone\<rparr>]"
    by simp
  have no: "\<not> (\<exists>eng s'. sortsByDistance eng \<and> placeBlock eng grassTop = Inr s' \<and>
         (0, 0, 2) \<in> set (map npos (blocks s')))"
  proof
    assume "\<exists>eng s'. sortsByDistance eng \<and> placeBlock eng grassTop = Inr s' \<and>
         (0, 0, 2) \<in> set (map npos (blocks s'))"
    then obtain eng s' where c: "sortsByDistance eng" and r: "placeBlock eng grassTop = Inr s'"
      and m: "(0, 0, 2) \<in> set (map npos (blocks s'))" by blast
    from r placeBlock_grassTop [OF c]
    have "s' = createNewBlock 0 2 0 Stone grassTop \<or> s' = grassTop"
      by (simp split: if_splits)
    then have "set (map npos (blocks s')) \<subseteq> {(0, 0, 0), (0, 2, 0)}"
      by (auto simp: createNewBlock_def Let_def grassTop_fields)
    with m show False by auto
  qed
  have d': "getDistance exactEngine ?b (camera grassTop) < 14" by (simp add: d)
  show ?thesis using grassTop_fields p w d' ex no by blast
qed

text \<open>
  C8. Placement never looks at what the scene already holds. Two left clicks on the same
  queue (no collision pass in between) both succeed, and the scene then holds two stone
  blocks at the same position \<open>(0, 0, 2)\<close>.
\<close>

theorem placeBlock_no_occupancy_check:
  "\<exists>s1 s2. placeBlock exactEngine (lookingDown 10) = Inr s1 \<and> placeBlock exactEngine s1 = Inr s2 \<and>
     blocks s1 = twoBlocks @ [\<lparr>nid = 2, npos = (0, 0, 2), nhpr = (0, 0, 0), nmodel = Stone\<rparr>] \<and>
     blocks s2 = twoBlocks @
       [\<lparr>nid = 2, npos = (0, 0, 2), nhpr = (0, 0, 0), nmodel = Stone\<rparr>,
        \<lparr>nid = 3, npos = (0, 0, 2), nhpr = (0, 0, 0), nmodel = Stone\<rparr>] \<and>
     length (filter (\<lambda>b. npos b = (0, 0, 2)) (blocks s2)) = 2"
proof -
  let ?s = "lookingDown 10"
  let ?b = "\<lparr>nid = 0, npos = (0, 0, 0), nhpr = (0, 0, 0), nmodel = Dirt\<rparr>"
  define s1 where "s1 = createNewBlock 0 0 2 Stone (?s\<lparr>rayQueue := sortEntries exactEngine (rayQueue ?s)\<rparr>)"
  define s2 where "s2 = createNewBlock 0 0 2 Stone (s1\<lparr>rayQueue := sortEntries exactEngine (rayQueue s1)\<rparr>)"
  have 1: "placeBlock exactEngine ?s = Inr s1"
    unfolding s1_def by (rule placeBlock_lookingDown) simp_all
  have q1: "rayQueue s1 = sortEntries exactEngine (rayQueue ?s)"
    by (simp add: s1_def createNewBlock_def Let_def)
  have n1: "nearestHit exactEngine s1 = nearestHit exactEngine ?s"
    by (simp add: nearestHit_def q1 sortEntries_lookingDown) (simp add: exactEngine_def)
  have b1: "blocks s1 = twoBlocks @ [\<lparr>nid = 2, npos = (0, 0, 2), nhpr = (0, 0, 0), nmodel = Stone\<rparr>]"
    by (simp add: s1_def createNewBlock_def Let_def lookingDown_def)
  have q: "rayQueue s1 \<noteq> []" by (simp add: q1 sortEntries_lookingDown)
  have t: "ownerTag s1 (intoNodePath (nearestHit exactEngine s1)) = Some 0"
    by (simp add: n1 nearestHit_lookingDown) (simp add: s1_def createNewBlock_def Let_def lookingDown_def)
  have f: "findNode 0 (blocks s1) = Some ?b"
    by (simp add: b1) (simp add: findNode_def twoBlocks_def)
  have c: "camera s1 = camera ?s \<and> selectedBlockType s1 = Stone \<and> nextNode s1 = 3"
    by (simp add: s1_def createNewBlock_def Let_def lookingDown_def)
  have d: "getDistance exactEngine ?b (camera s1) < 14"
    by (simp add: c getDistance_lookingDown)
  have v: "vadd (0, 0, 0) (vscale (surfaceNormal (nearestHit exactEngine s1)) 2) = (0, 0, 2)"
    by (simp add: n1 nearestHit_lookingDown vadd_def vscale_def)
  have 2: "placeBlock exactEngine s1 = Inr s2"
    using placeBlock_hit [OF q t f] d unfolding s2_def
    by (simp add: v c vx_def vy_def vz_def)
  have b2: "blocks s2 = twoBlocks @
       [\<lparr>nid = 2, npos = (0, 0, 2), nhpr = (0, 0, 0), nmodel = Stone\<rparr>,
        \<lparr>nid = 3, npos = (0, 0, 2), nhpr = (0, 0, 0), nmodel = Stone\<rparr>]"
    by (simp add: s2_def createNewBlock_def Let_def b1 c)
  have l: "length (filter (\<lambda>b. npos b = (0, 0, 2)) (blocks s2)) = 2"
    by (simp add: b2 twoBlocks_def)
  show ?thesis using 1 2 b1 b2 l by blast
qed

section \<open>Out of reach\<close>

text \<open>
  C4, as the program has it. With an empty queue removal and placement return the game
  unchanged. When the engine measures 12 units or more (removal), or 14 units or more
  (placement), from the block owning the first entry to the camera, both bounds included,
  the scene, the tags and every attribute stay as they were, except that the queue is
  left in the order the engine's sort gave it.
\<close>

theorem out_of_reach_only_sorts:
  "(rayQueue s = [] \<longrightarrow> removeBlock eng s = Inr s \<and> placeBlock eng s = Inr s) \<and>
   (\<forall>n b. rayQueue s \<noteq> [] \<and> ownerTag s (intoNodePath (nearestHit eng s)) = Some n \<and>
      findNode n (blocks s) = Some b \<longrightarrow>
        (12 \<le> getDistance eng b (camera s) \<longrightarrow>
           removeBlock eng s = Inr (s\<lparr>rayQueue := sortEntries eng (rayQueue s)\<rparr>)) \<and>
        (14 \<le> getDistance eng b (camera s) \<longrightarrow>
           placeBlock eng s = Inr (s\<lparr>rayQueue := sortEntries eng (rayQueue s)\<rparr>)))"
proof (intro conjI impI allI)
  assume "rayQueue s = []"
  then show "removeBlock eng s = Inr s" by (rule removeBlock_empty)
next
  assume "rayQueue s = []"
  then show "placeBlock eng s = Inr s" by (rule placeBlock_empty)
next
  fix n b
  assume h: "rayQueue s \<noteq> [] \<and> ownerTag s (intoNodePath (nearestHit eng s)) = Some n \<and>
      findNode n (blocks s) = Some b"
    and d: "12 \<le> getDistance eng b (camera s)"
  from h have q: "rayQueue s \<noteq> []" and t: "ownerTag s (intoNodePath (nearestHit eng s)) = Some n"
    and f: "findNode n (blocks s) = Some b" by simp_all
  show "removeBlock eng s = Inr (s\<lparr>rayQueue := sortEntries eng (rayQueue s)\<rparr>)"
    using removeBlock_hit [OF q t f] d by simp
next
  fix n b
  assume h: "rayQueue s \<noteq> [] \<and> ownerTag s (intoNodePath (nearestHit eng s)) = Some n \<and>
      findNode n (blocks s) = Some b"
    and d: "14 \<le> getDistance eng b (camera s)"
  from h have q: "rayQueue s \<noteq> []" and t: "ownerTag s (intoNodePath (nearestHit eng s)) = Some n"
    and f: "findNode n (blocks s) = Some b" by simp_all
  show "placeBlock eng s = Inr (s\<lparr>rayQueue := sortEntries eng (rayQueue s)\<rparr>)"
    using placeBlock_hit [OF q t f] d by simp
qed

text \<open>
  Nothing in reach: no ray hit at all, a nearest block 13 units away for removal and 15
  units away for placement.
\<close>

theorem out_of_reach_only_sorts_witness:
  "rayQueue initGame = [] \<and> removeBlock exactEngine initGame = Inr initGame \<and>
   placeBlock exactEngine initGame = Inr initGame \<and>
   rayQueue (lookingDown 13) \<noteq> [] \<and>
   12 \<le> getDistance exactEngine \<lparr>nid = 0, npos = (0, 0, 0), nhpr = (0, 0, 0), nmodel = Dirt\<rparr>
     (camera (lookingDown 13)) \<and>
   removeBlock exactEngine (lookingDown 13) =
     Inr ((lookingDown 13)\<lparr>rayQueue := sortEntries exactEngine (rayQueue (lookingDown 13))\<rparr>) \<and>
   rayQueue (lookingDown 15) \<noteq> [] \<and>
   14 \<le> getDistance exactEngine \<lparr>nid = 0, npos = (0, 0, 0), nhpr = (0, 0, 0), nmodel = Dirt\<rparr>
     (camera (lookingDown 15)) \<and>
   placeBlock exactEngine (lookingDown 15) =
     Inr ((lookingDown 15)\<lparr>rayQueue := sortEntries exactEngine (rayQueue (lookingDown 15))\<rparr>)"
proof -
  let ?b = "\<lparr>nid = 0, npos = (0, 0, 0), nhpr = (0, 0, 0), nmodel = Dirt\<rparr>"
  have e: "rayQueue initGame = []" by (simp add: initGame_def)
  have d13: "12 \<le> getDistance exactEngine ?b (camera (lookingDown 13))"
    by (simp add: getDistance_lookingDown)
  have d15: "14 \<le> getDistance exactEngine ?b (camera (lookingDown 15))"
    by (simp add: getDistance_lookingDown)
  from out_of_reach_only_sorts [of initGame exactEngine] e
  have 1: "removeBlock exactEngine initGame = Inr initGame \<and> placeBlock exactEngine initGame = Inr initGame"
    by blast
  from out_of_reach_only_sorts [of "lookingDown 13" exactEngine] queue_lookingDown [of 13]
    ownerTag_lookingDown [of 13] findNode_lookingDown [of 13] d13
  have 2: "removeBlock exactEngine (lookingDown 13) =
        Inr ((lookingDown 13)\<lparr>rayQueue := sortEntries exactEngine (rayQueue (lookingDown 13))\<rparr>)"
    by blast
  from out_of_reach_only_sorts [of "lookingDown 15" exactEngine] queue_lookingDown [of 15]
    ownerTag_lookingDown [of 15] findNode_lookingDown [of 15] d15
  have 3: "placeBlock exactEngine (lookingDown 15) =
        Inr ((lookingDown 15)\<lparr>rayQueue := sortEntries exactEngine (rayQueue (lookingDown 15))\<rparr>)"
    by blast
  show ?thesis using e 1 queue_lookingDown [of 13] d13 2 queue_lookingDown [of 15] d15 3 by blast
qed

text \<open>
  The claim as written, with all program state unchanged, fails. The nearest block is
  13 (or 15) units away, no block is removed (or placed), and yet the game returned
  differs from the one given: the queue held the farther entry first, and
  \<^verbatim>\<open>sortEntries\<close> ran before the distance was looked at. No engine that sorts by
  distance returns the game unchanged here.
\<close>

theorem out_of_reach_reorders_queue:
  "rayQueue (lookingDown 13) \<noteq> [] \<and>
   12 \<le> getDistance exactEngine \<lparr>nid = 0, npos = (0, 0, 0), nhpr = (0, 0, 0), nmodel = Dirt\<rparr>
     (camera (lookingDown 13)) \<and>
   (\<exists>s'. removeBlock exactEngine (lookingDown 13) = Inr s' \<and> blocks s' = blocks (lookingDown 13) \<and>
      map intoNodePath (rayQueue (lookingDown 13)) = [1, 0] \<and> map intoNodePath (rayQueue s') = [0, 1]) \<and>
   removeBlock exactEngine (lookingDown 13) \<noteq> Inr (lookingDown 13) \<and>
   rayQueue (lookingDown 15) \<noteq> [] \<and>
   14 \<le> getDistance exactEngine \<lparr>nid = 0, npos = (0, 0, 0), nhpr = (0, 0, 0), nmodel = Dirt\<rparr>
     (camera (lookingDown 15)) \<and>
   placeBlock exactEngine (lookingDown 15) \<noteq> Inr (lookingDown 15) \<and>
   \<not> (\<exists>eng. sortsByDistance eng \<and> removeBlock eng (lookingDown 13) = Inr (lookingDown 13)) \<and>
   \<not> (\<exists>eng. sortsByDistance eng \<and> placeBlock eng (lookingDown 15) = Inr (lookingDown 15))"
proof -
  let ?b = "\<lparr>nid = 0, npos = (0, 0, 0), nhpr = (0, 0, 0), nmodel = Dirt\<rparr>"
  have d13: "12 \<le> getDistance exactEngine ?b (camera (lookingDown 13))"
    by (simp add: getDistance_lookingDown)
  have d15: "14 \<le> getDistance exactEngine ?b (camera (lookingDown 15))"
    by (simp add: getDistance_lookingDown)
  have r: "removeBlock exactEngine (lookingDown 13) =
        Inr ((lookingDown 13)\<lparr>rayQueue := sortEntries exactEngine (rayQueue (lookingDown 13))\<rparr>)"
    using far_lookingDown [of 13] by simp
  have m: "map intoNodePath (rayQueue (lookingDown 13)) = [1, 0]" by (simp add: lookingDown_def)
  have m': "map intoNodePath (sortEntries exactEngine (rayQueue (lookingDown 13))) = [0, 1]"
    by (simp add: sortEntries_lookingDown)
  have ex: "\<exists>s'. removeBlock exactEngine (lookingDown 13) = Inr s' \<and> blocks s' = blocks (lookingDown 13) \<and>
      map intoNodePath (rayQueue (lookingDown 13)) = [1, 0] \<and> map intoNodePath (rayQueue s') = [0, 1]"
    using r m m' by simp
  have any: "\<not> (\<exists>eng. sortsByDistance eng \<and> removeBlock eng (lookingDown h) = Inr (lookingDown h))"
    "\<not> (\<exists>eng. sortsByDistance eng \<and> placeBlock eng (lookingDown h) = Inr (lookingDown h))" for h
    using unsorted_queue_changes [OF _ unsorted_lookingDown, of _ h] by blast+
  have nr: "removeBlock exactEngine (lookingDown 13) \<noteq> Inr (lookingDown 13)"
    using any(1) [of 13] exactEngine_sorts by blast
  have np: "placeBlock exactEngine (lookingDown 15) \<noteq> Inr (lookingDown 15)"
    using any(2) [of 15] exactEngine_sorts by blast
  show ?thesis
    using queue_lookingDown [of 13] d13 ex nr queue_lookingDown [of 15] d15 np any(1) [of 13] any(2) [of 15]
    by blast
qed

section \<open>Clicks and the pause menu\<close>

text \<open>
  C9. The left button is bound to \<^verbatim>\<open>placeBlock\<close> and the right button to
  \<^verbatim>\<open>handleLeftClick\<close>, which captures the mouse and calls \<^verbatim>\<open>removeBlock\<close>; none
  of them reads \<^verbatim>\<open>menuActive\<close>. Setting the flag to any value before a click gives
  the result of the click without it, with the flag set: the same error, or the same
  game with the same blocks placed or removed. This holds for every engine.
\<close>

theorem clicks_ignore_pause:
  "dispatch eng md ''mouse1'' s = placeBlock eng s \<and>
   dispatch eng md ''mouse3'' s = handleLeftClick eng md s \<and>
   handleLeftClick eng md s = removeBlock eng (captureMouse md s) \<and>
   placeBlock eng (s\<lparr>menuActive := m\<rparr>) = map_sum id (\<lambda>t. t\<lparr>menuActive := m\<rparr>) (placeBlock eng s) \<and>
   removeBlock eng (s\<lparr>menuActive := m\<rparr>) = map_sum id (\<lambda>t. t\<lparr>menuActive := m\<rparr>) (removeBlock eng s) \<and>
   dispatch eng md ''mouse1'' (s\<lparr>menuActive := m\<rparr>)
     = map_sum id (\<lambda>t. t\<lparr>menuActive := m\<rparr>) (dispatch eng md ''mouse1'' s) \<and>
   dispatch eng md ''mouse3'' (s\<lparr>menuActive := m\<rparr>)
     = map_sum id (\<lambda>t. t\<lparr>menuActive := m\<rparr>) (dispatch eng md ''mouse3'' s)"
  by (simp add: dispatch_mouse1 dispatch_mouse3 handleLeftClick_def placeBlock_menuActive
      removeBlock_menuActive captureMouse_menuActive)

text \<open>With the pause menu open, a right click still removes the block and a left click still places one.\<close>

theorem clicks_ignore_pause_witness:
  "menuActive ((lookingDown 10)\<lparr>menuActive := True\<rparr>) \<and>
   (\<exists>s'. dispatch exactEngine (5, 5) ''mouse3'' ((lookingDown 10)\<lparr>menuActive := True\<rparr>) = Inr s' \<and>
      menuActive s' \<and> map nid (blocks s') = [1]) \<and>
   (\<exists>s'. dispatch exactEngine (5, 5) ''mouse1'' ((lookingDown 10)\<lparr>menuActive := True\<rparr>) = Inr s' \<and>
      menuActive s' \<and> map nid (blocks s') = [0, 1, 2])"
proof -
  let ?s = "lookingDown 10"
  have r: "dispatch exactEngine (5, 5) ''mouse3'' ?s =
      Inr (captureMouse (5, 5) (?s\<lparr>rayQueue := sortEntries exactEngine (rayQueue ?s),
            ownerTag := (ownerTag ?s)(0 := None),
            blocks := [\<lparr>nid = 1, npos = (0, 0, - 2), nhpr = (0, 0, 0), nmodel = Dirt\<rparr>]\<rparr>))"
    by (simp add: dispatch_mouse3 removeBlock_captureMouse removeBlock_lookingDown)
  have p: "dispatch exactEngine (5, 5) ''mouse1'' ?s =
      Inr (createNewBlock 0 0 2 Stone (?s\<lparr>rayQueue := sortEntries exactEngine (rayQueue ?s)\<rparr>))"
    by (simp add: dispatch_mouse1 placeBlock_lookingDown)
  note c = clicks_ignore_pause [of exactEngine "(5, 5)" ?s True]
  have 1: "\<exists>s'. dispatch exactEngine (5, 5) ''mouse3'' (?s\<lparr>menuActive := True\<rparr>) = Inr s' \<and>
      menuActive s' \<and> map nid (blocks s') = [1]"
    using c r by (simp add: captureMouse_def)
  have 2: "\<exists>s'. dispatch exactEngine (5, 5) ''mouse1'' (?s\<lparr>menuActive := True\<rparr>) = Inr s' \<and>
      menuActive s' \<and> map nid (blocks s') = [0, 1, 2]"
    using c p by (simp add: createNewBlock_def Let_def lookingDown_def twoBlocks_def)
  show ?thesis using 1 2 by simp
qed

section \<open>The right button captures the mouse\<close>

text \<open>
  C10. A right click runs \<^verbatim>\<open>captureMouse\<close> first and \<^verbatim>\<open>removeBlock\<close> on the
  result. The capture turns camera swing on and stores the pointer position, and removal
  does not touch these attributes, so every game a right click returns has them set:
  with no ray hit and with the nearest block 12 units or more away as well. A left click
  is \<^verbatim>\<open>placeBlock\<close> alone and leaves the swing flag, the stored pointer position, the
  cursor and the mouse mode as they were. This holds for every engine.
\<close>

theorem right_click_captures_mouse:
  "dispatch eng md ''mouse3'' s = removeBlock eng (captureMouse md s) \<and>
   cameraSwingActivated (captureMouse md s) \<and>
   lastMouseX (captureMouse md s) = fst md \<and> lastMouseY (captureMouse md s) = snd md \<and>
   (\<forall>s'. dispatch eng md ''mouse3'' s = Inr s' \<longrightarrow>
      cameraSwingActivated s' \<and> lastMouseX s' = fst md \<and> lastMouseY s' = snd md) \<and>
   (rayQueue s = [] \<longrightarrow> dispatch eng md ''mouse3'' s = Inr (captureMouse md s)) \<and>
   (\<forall>n b. rayQueue s \<noteq> [] \<and> ownerTag s (intoNodePath (nearestHit eng s)) = Some n \<and>
      findNode n (blocks s) = Some b \<and> 12 \<le> getDistance eng b (camera s) \<longrightarrow>
      dispatch eng md ''mouse3'' s =
        Inr (captureMouse md (s\<lparr>rayQueue := sortEntries eng (rayQueue s)\<rparr>))) \<and>
   dispatch eng md ''mouse1'' s = placeBlock eng s \<and>
   (\<forall>s'. dispatch eng md ''mouse1'' s = Inr s' \<longrightarrow>
      cameraSwingActivated s' = cameraSwingActivated s \<and>
      lastMouseX s' = lastMouseX s \<and> lastMouseY s' = lastMouseY s \<and>
      cursorHidden s' = cursorHidden s \<and> mouseMode s' = mouseMode s)"
proof (intro conjI impI allI)
  show "dispatch eng md ''mouse3'' s = removeBlock eng (captureMouse md s)" by (rule dispatch_mouse3)
  show "cameraSwingActivated (captureMouse md s)" by (simp add: captureMouse_def)
  show "lastMouseX (captureMouse md s) = fst md" by (simp add: captureMouse_def)
  show "lastMouseY (captureMouse md s) = snd md" by (simp add: captureMouse_def)
  show "dispatch eng md ''mouse1'' s = placeBlock eng s" by (rule dispatch_mouse1)
next
  fix s' assume "dispatch eng md ''mouse3'' s = Inr s'"
  then have "removeBlock eng (captureMouse md s) = Inr s'" by (simp add: dispatch_mouse3)
  from removeBlock_keeps [OF this]
  show "cameraSwingActivated s'" and "lastMouseX s' = fst md" and "lastMouseY s' = snd md"
    by (simp_all add: captureMouse_def)
next
  assume "rayQueue s = []"
  then have "removeBlock eng s = Inr s" by (rule removeBlock_empty)
  then show "dispatch eng md ''mouse3'' s = Inr (captureMouse md s)"
    by (simp add: dispatch_mouse3 removeBlock_captureMouse)
next
  fix n b
  assume h: "rayQueue s \<noteq> [] \<and> ownerTag s (intoNodePath (nearestHit eng s)) = Some n \<and>
      findNode n (blocks s) = Some b \<and> 12 \<le> getDistance eng b (camera s)"
  then have q: "rayQueue s \<noteq> []" and t: "ownerTag s (intoNodePath (nearestHit eng s)) = Some n"
    and f: "findNode n (blocks s) = Some b" and d: "12 \<le> getDistance eng b (camera s)"
    by simp_all
  have "removeBlock eng s = Inr (s\<lparr>rayQueue := sortEntries eng (rayQueue s)\<rparr>)"
    using removeBlock_hit [OF q t f] d by simp
  then show "dispatch eng md ''mouse3'' s =
      Inr (captureMouse md (s\<lparr>rayQueue := sortEntries eng (rayQueue s)\<rparr>))"
    by (simp add: dispatch_mouse3 removeBlock_captureMouse)
next
  fix s' assume "dispatch eng md ''mouse1'' s = Inr s'"
  then have "placeBlock eng s = Inr s'" by (simp add: dispatch_mouse1)
  from placeBlock_keeps [OF this]
  show "cameraSwingActivated s' = cameraSwingActivated s" and "lastMouseX s' = lastMouseX s"
    and "lastMouseY s' = lastMouseY s" and "cursorHidden s' = cursorHidden s"
    and "mouseMode s' = mouseMode s"
    by simp_all
qed

text \<open>
  Right clicks with the pointer at \<open>(7, 9)\<close>: with no ray hit, and with the nearest
  block 13 units away. Both leave the scene alone and capture the mouse. A left click in
  reach places a block and leaves camera swing off.
\<close>

theorem right_click_captures_mouse_witness:
  "rayQueue initGame = [] \<and> \<not> cameraSwingActivated initGame \<and>
   dispatch exactEngine (7, 9) ''mouse3'' initGame = Inr (captureMouse (7, 9) initGame) \<and>
   cameraSwingActivated (captureMouse (7, 9) initGame) \<and>
   lastMouseX (captureMouse (7, 9) initGame) = 7 \<and> lastMouseY (captureMouse (7, 9) initGame) = 9 \<and>
   12 \<le> getDistance exactEngine \<lparr>nid = 0, npos = (0, 0, 0), nhpr = (0, 0, 0), nmodel = Dirt\<rparr>
     (camera (lookingDown 13)) \<and>
   (\<exists>s'. dispatch exactEngine (7, 9) ''mouse3'' (lookingDown 13) = Inr s' \<and> blocks s' = twoBlocks \<and>
      cameraSwingActivated s' \<and> lastMouseX s' = 7 \<and> lastMouseY s' = 9) \<and>
   (\<exists>s'. dispatch exactEngine (7, 9) ''mouse1'' ((lookingDown 10)\<lparr>cameraSwingActivated := False\<rparr>) = Inr s' \<and>
      \<not> cameraSwingActivated s' \<and> lastMouseX s' = 0)"
proof -
  let ?b = "\<lparr>nid = 0, npos = (0, 0, 0), nhpr = (0, 0, 0), nmodel = Dirt\<rparr>"
  let ?u = "(lookingDown 10)\<lparr>cameraSwingActivated := False\<rparr>"
  have e: "rayQueue initGame = []" and ns: "\<not> cameraSwingActivated initGame"
    by (simp_all add: initGame_def)
  have d: "12 \<le> getDistance exactEngine ?b (camera (lookingDown 13))"
    by (simp add: getDistance_lookingDown)
  note w1 = right_click_captures_mouse [of exactEngine "(7, 9)" initGame]
  note w2 = right_click_captures_mouse [of exactEngine "(7, 9)" "lookingDown 13"]
  note w3 = right_click_captures_mouse [of exactEngine "(7, 9)" ?u]
  from w1 e have 1: "dispatch exactEngine (7, 9) ''mouse3'' initGame = Inr (captureMouse (7, 9) initGame)"
    by blast
  from w1 have 2: "cameraSwingActivated (captureMouse (7, 9) initGame) \<and>
      lastMouseX (captureMouse (7, 9) initGame) = 7 \<and> lastMouseY (captureMouse (7, 9) initGame) = 9"
    by simp
  from w2 queue_lookingDown [of 13] ownerTag_lookingDown [of 13] findNode_lookingDown [of 13] d
  have "dispatch exactEngine (7, 9) ''mouse3'' (lookingDown 13) =
      Inr (captureMouse (7, 9)
        ((lookingDown 13)\<lparr>rayQueue := sortEntries exactEngine (rayQueue (lookingDown 13))\<rparr>))"
    by blast
  then have 3: "\<exists>s'. dispatch exactEngine (7, 9) ''mouse3'' (lookingDown 13) = Inr s' \<and> blocks s' = twoBlocks \<and>
      cameraSwingActivated s' \<and> lastMouseX s' = 7 \<and> lastMouseY s' = 9"
    by (simp add: captureMouse_def lookingDown_def)
  have "placeBlock exactEngine ?u =
      map_sum id (\<lambda>t. t\<lparr>cameraSwingActivated := False\<rparr>) (placeBlock exactEngine (lookingDown 10))"
    by (auto simp: placeBlock_def hitOwner_def nearestHit_def createNewBlock_def Let_def
        split: option.splits)
  then obtain s' where p: "dispatch exactEngine (7, 9) ''mouse1'' ?u = Inr s'"
    by (simp add: dispatch_mouse1 placeBlock_lookingDown)
  with w3 have "cameraSwingActivated s' = cameraSwingActivated ?u \<and> lastMouseX s' = lastMouseX ?u"
    by blast
  then have "\<not> cameraSwingActivated s' \<and> lastMouseX s' = 0"
    by (simp add: lookingDown_def initGame_def)
  with p have 4: "\<exists>s'. dispatch exactEngine (7, 9) ''mouse1'' ?u = Inr s' \<and>
      \<not> cameraSwingActivated s' \<and> lastMouseX s' = 0"
    by blast
  show ?thesis using e ns 1 2 d 3 4 by blast
qed

section \<open>Selecting the block type\<close>

lemma str_digits: "str 1 = ''1'' \<and> str 2 = ''2'' \<and> str 3 = ''3'' \<and> str 4 = ''4''"
  by (simp add: str.simps)

text \<open>The table that \<^verbatim>\<open>setupControls\<close> builds, written out.\<close>

lemma setupControls_list:
  "setupControls =
     [(''escape'', ToggleMenu), (''mouse1'', PlaceBlock), (''mouse3'', HandleLeftClick),
      (''w'', UpdateKeyMap Forward True), (''w-up'', UpdateKeyMap Forward False),
      (''s'', UpdateKeyMap Backward True), (''s-up'', UpdateKeyMap Backward False),
      (''a'', UpdateKeyMap MoveLeft True), (''a-up'', UpdateKeyMap MoveLeft False),
      (''d'', UpdateKeyMap MoveRight True), (''d-up'', UpdateKeyMap MoveRight False),
      (''space'', UpdateKeyMap MoveUp True), (''space-up'', UpdateKeyMap MoveUp False),
      (''lshift'', UpdateKeyMap MoveDown True), (''lshift-up'', UpdateKeyMap MoveDown False),
      (''1'', SetSelectedBlockType Grass), (''2'', SetSelectedBlockType Dirt),
      (''3'', SetSelectedBlockType Sand), (''4'', SetSelectedBlockType Stone)]"
  by (simp add: setupControls_def enumerate_eq_zip str.simps upt_rec)

lemma selection_keys:
  "map_of setupControls ev = Some (SetSelectedBlockType t) \<Longrightarrow>
     (ev, t) \<in> {(''1'', Grass), (''2'', Dirt), (''3'', Sand), (''4'', Stone)}"
  by (simp add: setupControls_list split: if_splits)

lemma dispatch_select:
  assumes "(ev, t) \<in> {(''1'', Grass), (''2'', Dirt), (''3'', Sand), (''4'', Stone)}"
  shows "dispatch eng md ev s = Inr (s\<lparr>selectedBlockType := t\<rparr>)"
  using assms by (auto simp: dispatch_def setupControls_list setSelectedBlockType_def)

lemma update_selected: "selectedBlockType (update dt md s) = selectedBlockType s"
  by (simp add: update_def swing_def Let_def split: prod.splits)

lemma call_selected:
  assumes "call eng md h s = Inr s'" and "\<forall>t. h \<noteq> SetSelectedBlockType t"
  shows "selectedBlockType s' = selectedBlockType s"
proof (cases h)
  case ToggleMenu
  with assms show ?thesis
    by (auto simp: toggleMenu_def captureMouse_def releaseMouse_def)
next
  case PlaceBlock
  with assms have "placeBlock eng s = Inr s'" by simp
  from placeBlock_keeps [OF this] show ?thesis by simp
next
  case HandleLeftClick
  with assms have "removeBlock eng (captureMouse md s) = Inr s'"
    by (simp add: handleLeftClick_def)
  from removeBlock_keeps [OF this] show ?thesis by (simp add: captureMouse_def)
next
  case (UpdateKeyMap k v)
  with assms show ?thesis by (auto simp: updateKeyMap_def)
next
  case (SetSelectedBlockType t)
  with assms show ?thesis by simp
qed

lemma dispatch_selected:
  assumes "dispatch eng md ev s = Inr s'" and "selectedBlockType s = t"
    and "ev \<in> {''1'', ''2'', ''3'', ''4''} \<longrightarrow> map_of setupControls ev = Some (SetSelectedBlockType t)"
  shows "selectedBlockType s' = t"
proof (cases "map_of setupControls ev")
  case None
  with assms show ?thesis by (simp add: dispatch_def)
next
  case (Some h)
  show ?thesis
  proof (cases "\<exists>u. h = SetSelectedBlockType u")
    case True
    then obtain u where u: "h = SetSelectedBlockType u" by blast
    with Some have "ev \<in> {''1'', ''2'', ''3'', ''4''}"
      using selection_keys [of ev u] by auto
    with assms(3) Some u have "u = t" by auto
    with assms(1) Some u show ?thesis by (auto simp: dispatch_def setSelectedBlockType_def)
  next
    case False
    from assms(1) Some have "call eng md h s = Inr s'" by (simp add: dispatch_def)
    from call_selected [OF this] False assms(2) show ?thesis by simp
  qed
qed

lemma step_selected:
  assumes "step eng i s = Inr s'" and "selectedBlockType s = t"
    and "\<forall>md ev. i = Event md ev \<longrightarrow> ev \<in> {''1'', ''2'', ''3'', ''4''} \<longrightarrow>
           map_of setupControls ev = Some (SetSelectedBlockType t)"
  shows "selectedBlockType s' = t"
proof (cases i)
  case (Event md ev)
  with assms have "dispatch eng md ev s = Inr s'" by (simp add: step_def)
  from dispatch_selected [OF this assms(2)] assms(3) Event show ?thesis by simp
next
  case (Frame c md)
  with assms show ?thesis
    by (auto simp: step_def updateTask_def update_selected split: if_splits option.splits)
next
  case (Traverse q)
  with assms show ?thesis by (auto simp: step_def)
qed

lemma run_selected:
  assumes "run eng is s = Inr s'" and "selectedBlockType s = t"
    and "\<forall>md ev. Event md ev \<in> set is \<longrightarrow> ev \<in> {''1'', ''2'', ''3'', ''4''} \<longrightarrow>
           map_of setupControls ev = Some (SetSelectedBlockType t)"
  shows "selectedBlockType s' = t"
  using assms
proof (induction "is" arbitrary: s)
  case Nil
  then show ?case by simp
next
  case (Cons i "is")
  from Cons.prems(1) obtain s1 where 1: "step eng i s = Inr s1" and 2: "run eng is s1 = Inr s'"
    by (auto split: sum.splits)
  have "selectedBlockType s1 = t"
    using step_selected [OF 1 Cons.prems(2)] Cons.prems(3) by simp
  from Cons.IH [OF 2 this] Cons.prems(3) show ?case by simp
qed

lemma selection_key_of:
  assumes "(N, t) \<in> {(1, Grass), (2, Dirt), (3, Sand), (4, Stone)}"
  shows "(str N, t) \<in> {(''1'', Grass), (''2'', Dirt), (''3'', Sand), (''4'', Stone)} \<and>
         map_of setupControls (str N) = Some (SetSelectedBlockType t)"
  using assms str_digits by (auto simp: setupControls_list)

text \<open>
  C5. The key \<open>N\<close> of 1 to 4 sets the selected type to grass, dirt, sand or stone.
  Whatever the engine then delivers (clicks, other keys, the same key again, frames,
  collision passes), as long as no other key of 1 to 4 is among it, the selected type
  is still that type, and a left click that succeeds either leaves the scene as it is or
  appends exactly one block of that type, and keeps the selection.
\<close>

theorem numeric_key_selects_type:
  assumes "(N, t) \<in> {(1, Grass), (2, Dirt), (3, Sand), (4, Stone)}"
  shows
  "dispatch eng md (str N) s = Inr (s\<lparr>selectedBlockType := t\<rparr>) \<and>
   (\<forall>is s'. run eng is (s\<lparr>selectedBlockType := t\<rparr>) = Inr s' \<and>
        (\<forall>md' ev. Event md' ev \<in> set is \<longrightarrow> ev \<in> {''1'', ''2'', ''3'', ''4''} \<longrightarrow> ev = str N) \<longrightarrow>
      selectedBlockType s' = t \<and>
      (\<forall>md' s''. dispatch eng md' ''mouse1'' s' = Inr s'' \<longrightarrow>
         selectedBlockType s'' = t \<and>
         (blocks s'' = blocks s' \<or>
          (\<exists>p h. blocks s'' = blocks s' @ [\<lparr>nid = nextNode s', npos = p, nhpr = h, nmodel = t\<rparr>]))))"
proof (intro conjI allI impI)
  note k = selection_key_of [OF assms]
  show "dispatch eng md (str N) s = Inr (s\<lparr>selectedBlockType := t\<rparr>)"
    using k by (intro dispatch_select) simp
  fix "is" s'
  assume h: "run eng is (s\<lparr>selectedBlockType := t\<rparr>) = Inr s' \<and>
        (\<forall>md' ev. Event md' ev \<in> set is \<longrightarrow> ev \<in> {''1'', ''2'', ''3'', ''4''} \<longrightarrow> ev = str N)"
  then have r: "run eng is (s\<lparr>selectedBlockType := t\<rparr>) = Inr s'" by simp
  have "\<forall>md ev. Event md ev \<in> set is \<longrightarrow> ev \<in> {''1'', ''2'', ''3'', ''4''} \<longrightarrow>
           map_of setupControls ev = Some (SetSelectedBlockType t)"
    using h k by metis
  from run_selected [OF r _ this] show sel: "selectedBlockType s' = t" by simp
  fix md' s''
  assume "dispatch eng md' ''mouse1'' s' = Inr s''"
  then have p: "placeBlock eng s' = Inr s''" by (simp add: dispatch_mouse1)
  from placeBlock_keeps [OF p] sel show "selectedBlockType s'' = t" by simp
  from placeBlock_blocks [OF p] sel
  show "blocks s'' = blocks s' \<or>
      (\<exists>p h. blocks s'' = blocks s' @ [\<lparr>nid = nextNode s', npos = p, nhpr = h, nmodel = t\<rparr>])"
    by simp
qed

lemma placeBlock_over_upper:
  assumes "sortEntries exactEngine (rayQueue s) = sortEntries exactEngine (rayQueue (lookingDown h))"
    and "rayQueue s \<noteq> []" and "ownerTag s 0 = Some 0"
    and "findNode 0 (blocks s) = Some \<lparr>nid = 0, npos = (0, 0, 0), nhpr = (0, 0, 0), nmodel = Dirt\<rparr>"
    and "camera s = camera (lookingDown h)" and "0 \<le> h" and "h < 14"
  shows "placeBlock exactEngine s =
     Inr (createNewBlock 0 0 2 (selectedBlockType s)
            (s\<lparr>rayQueue := sortEntries exactEngine (rayQueue (lookingDown h))\<rparr>))"
proof -
  have n: "nearestHit exactEngine s = nearestHit exactEngine (lookingDown h)"
    by (simp add: nearestHit_def assms(1))
  have t: "ownerTag s (intoNodePath (nearestHit exactEngine s)) = Some 0"
    by (simp add: n nearestHit_lookingDown assms(3))
  have v: "vadd (0, 0, 0) (vscale (surfaceNormal (nearestHit exactEngine s)) 2) = (0, 0, 2)"
    by (simp add: n nearestHit_lookingDown vadd_def vscale_def)
  show ?thesis
    using placeBlock_hit [OF assms(2) t assms(4)] assms(6,7)
    by (simp add: assms(1,5) getDistance_lookingDown v vx_def vy_def vz_def)
qed

text \<open>
  Key 3 selects sand. A left click, the key \<open>w\<close> and another left click later, the
  selection is still sand and both clicks have placed a sand block.
\<close>

theorem numeric_key_selects_type_witness:
  "(3, Sand) \<in> {(1::nat, Grass), (2, Dirt), (3, Sand), (4, Stone)} \<and> str 3 = ''3'' \<and>
   dispatch exactEngine (0, 0) ''3'' (lookingDown 10) = Inr ((lookingDown 10)\<lparr>selectedBlockType := Sand\<rparr>) \<and>
   (\<exists>s' s''. run exactEngine [Event (0, 0) ''mouse1'', Event (0, 0) ''w'']
        ((lookingDown 10)\<lparr>selectedBlockType := Sand\<rparr>) = Inr s' \<and>
      selectedBlockType s' = Sand \<and> map nmodel (blocks s') = [Dirt, Dirt, Sand] \<and>
      dispatch exactEngine (0, 0) ''mouse1'' s' = Inr s'' \<and> selectedBlockType s'' = Sand \<and>
      map nmodel (blocks s'') = [Dirt, Dirt, Sand, Sand])"
proof -
  let ?b = "\<lparr>nid = 0, npos = (0, 0, 0), nhpr = (0, 0, 0), nmodel = Dirt\<rparr>"
  let ?s0 = "(lookingDown 10)\<lparr>selectedBlockType := Sand\<rparr>"
  let ?q = "sortEntries exactEngine (rayQueue (lookingDown 10))"
  define s1 where "s1 = createNewBlock 0 0 2 Sand (?s0\<lparr>rayQueue := ?q\<rparr>)"
  define s2 where "s2 = updateKeyMap Forward True s1"
  define s3 where "s3 = createNewBlock 0 0 2 Sand (s2\<lparr>rayQueue := ?q\<rparr>)"
  have m: "(3, Sand) \<in> {(1::nat, Grass), (2, Dirt), (3, Sand), (4, Stone)}" by simp
  have s3': "str 3 = ''3''" using str_digits by simp
  have qq: "sortEntries exactEngine ?q = ?q"
    by (simp add: sortEntries_lookingDown) (simp add: exactEngine_def)
  have p1: "placeBlock exactEngine ?s0 = Inr s1"
  proof -
    have "placeBlock exactEngine ?s0 =
        Inr (createNewBlock 0 0 2 (selectedBlockType ?s0) (?s0\<lparr>rayQueue := ?q\<rparr>))"
      by (rule placeBlock_over_upper)
        (simp_all add: queue_lookingDown findNode_lookingDown, simp_all add: lookingDown_def)
    then show ?thesis by (simp add: s1_def)
  qed
  have f2: "rayQueue s2 = ?q \<and> ownerTag s2 0 = Some 0 \<and> camera s2 = camera (lookingDown 10) \<and>
      selectedBlockType s2 = Sand \<and>
      blocks s2 = twoBlocks @ [\<lparr>nid = 2, npos = (0, 0, 2), nhpr = (0, 0, 0), nmodel = Sand\<rparr>]"
    by (simp add: s2_def s1_def updateKeyMap_def createNewBlock_def Let_def)
      (simp add: lookingDown_def)
  have w: "dispatch exactEngine (0, 0) ''w'' s1 = Inr s2"
    by (simp add: dispatch_def setupControls_list s2_def)
  have r: "run exactEngine [Event (0, 0) ''mouse1'', Event (0, 0) ''w''] ?s0 = Inr s2"
    by (simp add: step_def dispatch_mouse1 p1 w)
  have p3: "placeBlock exactEngine s2 = Inr s3"
  proof -
    have "placeBlock exactEngine s2 =
        Inr (createNewBlock 0 0 2 (selectedBlockType s2) (s2\<lparr>rayQueue := ?q\<rparr>))"
      by (rule placeBlock_over_upper)
        (simp_all add: f2 qq sortEntries_lookingDown, simp_all add: findNode_def twoBlocks_def exactEngine_def)
    then show ?thesis by (simp add: s3_def f2)
  qed
  have b2: "map nmodel (blocks s2) = [Dirt, Dirt, Sand]" by (simp add: f2 twoBlocks_def)
  have b3: "map nmodel (blocks s3) = [Dirt, Dirt, Sand, Sand]"
    by (simp add: s3_def createNewBlock_def Let_def f2 twoBlocks_def)
  have ev: "\<forall>md' ev. Event md' ev \<in> set [Event (0, 0) ''mouse1'', Event (0, 0) ''w''] \<longrightarrow>
      ev \<in> {''1'', ''2'', ''3'', ''4''} \<longrightarrow> ev = str 3"
    by auto
  note k = numeric_key_selects_type [OF m, of exactEngine "(0, 0)" "lookingDown 10"]
  from k have d: "dispatch exactEngine (0, 0) ''3'' (lookingDown 10) = Inr ?s0"
    by (simp add: s3')
  from k r ev have sel2: "selectedBlockType s2 = Sand" by blast
  from k r ev have "\<forall>md' s''. dispatch exactEngine md' ''mouse1'' s2 = Inr s'' \<longrightarrow> selectedBlockType s'' = Sand"
    by blast
  then have sel3: "selectedBlockType s3 = Sand" using p3 by (simp add: dispatch_mouse1)
  have c: "run exactEngine [Event (0, 0) ''mouse1'', Event (0, 0) ''w''] ?s0 = Inr s2 \<and>
      selectedBlockType s2 = Sand \<and> map nmodel (blocks s2) = [Dirt, Dirt, Sand] \<and>
      dispatch exactEngine (0, 0) ''mouse1'' s2 = Inr s3 \<and> selectedBlockType s3 = Sand \<and>
      map nmodel (blocks s3) = [Dirt, Dirt, Sand, Sand]"
    using r sel2 b2 p3 sel3 b3 by (simp add: dispatch_mouse1)
  have ex: "\<exists>s' s''. run exactEngine [Event (0, 0) ''mouse1'', Event (0, 0) ''w''] ?s0 = Inr s' \<and>
      selectedBlockType s' = Sand \<and> map nmodel (blocks s') = [Dirt, Dirt, Sand] \<and>
      dispatch exactEngine (0, 0) ''mouse1'' s' = Inr s'' \<and> selectedBlockType s'' = Sand \<and>
      map nmodel (blocks s'') = [Dirt, Dirt, Sand, Sand]"
    by (rule exI [of _ s2], rule exI [of _ s3], rule c)
  show ?thesis by (rule conjI [OF m conjI [OF s3' conjI [OF d ex]]])
qed

section \<open>The frame update when the game is not paused\<close>

lemma fold_keeps:
  assumes "\<And>x s. g (f x s) = g s"
  shows "g (fold f xs s) = g s"
  using assms by (induction xs arbitrary: s) simp_all

lemma generateTerrain_keeps:
  "menuActive (generateTerrain s) = menuActive s \<and>
   cameraSwingActivated (generateTerrain s) = cameraSwingActivated s \<and>
   keyMap (generateTerrain s) = keyMap s \<and>
   lastMouseX (generateTerrain s) = lastMouseX s \<and> lastMouseY (generateTerrain s) = lastMouseY s \<and>
   selectedBlockType (generateTerrain s) = selectedBlockType s"
proof -
  define g where "g = (\<lambda>s::game. (menuActive s, cameraSwingActivated s, keyMap s, lastMouseX s,
    lastMouseY s, selectedBlockType s))"
  have 1: "g (terrainBlock z y x s) = g s" for z y x s
    by (simp add: g_def terrainBlock_effect)
  have 2: "g (fold (terrainBlock z y) xs s) = g s" for z y xs s
    by (rule fold_keeps) (rule 1)
  have 3: "g (fold (\<lambda>y. fold (terrainBlock z y) xs) ys s) = g s" for z xs ys s
    by (rule fold_keeps) (rule 2)
  have "g (fold (\<lambda>z. fold (\<lambda>y. fold (terrainBlock z y) xs) ys) zs s) = g s" for xs ys zs
    by (rule fold_keeps) (rule 3)
  then have "g (generateTerrain s) = g s" by (simp add: generateTerrain_def)
  then show ?thesis by (simp add: g_def)
qed

text \<open>The game as \<^verbatim>\<open>__init__\<close> leaves it, with the pointer at \<open>md\<close>.\<close>

lemma newGame_fields:
  "\<not> menuActive (newGame md) \<and> cameraSwingActivated (newGame md) \<and>
   keyMap (newGame md) = (\<lambda>_. False) \<and>
   lastMouseX (newGame md) = fst md \<and> lastMouseY (newGame md) = snd md \<and>
   camera (newGame md) = \<lparr>camX = 0, camY = 0, camZ = 3, camH = 0, camP = 0, camR = 0\<rparr>"
  by (simp add: newGame_def captureMouse_def setupCamera_def generateTerrain_keeps
      generateTerrain_camera initGame_def)

text \<open>
  What lines 260 to 281 do once they are reached: the heading goes down by the pointer's
  move to the right times the frame time times 10, the pitch is clamped and the roll is
  set to 0.
\<close>

lemma update_swing:
  assumes "\<not> menuActive s" and "cameraSwingActivated s"
  shows "camH (camera (update dt md s)) = camH (camera s) - (fst md - lastMouseX s) * dt * 10 \<and>
     camP (camera (update dt md s)) = min 90 (max (- 90) (camP (camera s) - (snd md - lastMouseY s) * dt * 10)) \<and>
     - 90 \<le> camP (camera (update dt md s)) \<and> camP (camera (update dt md s)) \<le> 90 \<and>
     camR (camera (update dt md s)) = 0"
  using assms by (simp add: update_def swing_def Let_def split: prod.splits)

text \<open>
  C7, on the first frame after start-up. The game is not paused, camera swing is active
  and the pointer has moved 8 to the right and 4 down since it was captured. The update
  task reads \<^verbatim>\<open>self.globalClock\<close> at line 230; on a game object without that
  attribute the read raises and the camera is never turned. With such an attribute and a
  frame time of an eighth of a second, the same frame would turn the heading from 0 to
  -10, set the pitch to -5 and the roll to 0.
\<close>

theorem update_raises_without_clock:
  "\<not> menuActive (newGame (0, 0)) \<and> cameraSwingActivated (newGame (0, 0)) \<and>
   lastMouseX (newGame (0, 0)) = 0 \<and> lastMouseY (newGame (0, 0)) = 0 \<and>
   camera (newGame (0, 0)) = \<lparr>camX = 0, camY = 0, camZ = 3, camH = 0, camP = 0, camR = 0\<rparr> \<and>
   updateTask None (8, 4) (newGame (0, 0)) = Inl AttributeError \<and>
   (\<exists>s'. updateTask (Some (1 / 8)) (8, 4) (newGame (0, 0)) = Inr s' \<and>
      camH (camera s') = - 10 \<and> camP (camera s') = - 5 \<and> camR (camera s') = 0 \<and>
      camH (camera s') < camH (camera (newGame (0, 0))))"
proof -
  note f = newGame_fields [of "(0, 0)"]
  have n: "updateTask None (8, 4) (newGame (0, 0)) = Inl AttributeError"
    using f by (simp add: updateTask_def)
  have u: "updateTask (Some (1 / 8)) (8, 4) (newGame (0, 0)) = Inr (update (1 / 8) (8, 4) (newGame (0, 0)))"
    using f by (simp add: updateTask_def)
  have c: "camH (camera (update (1 / 8) (8, 4) (newGame (0, 0)))) = - 10 \<and>
      camP (camera (update (1 / 8) (8, 4) (newGame (0, 0)))) = - 5 \<and>
      camR (camera (update (1 / 8) (8, 4) (newGame (0, 0)))) = 0"
    using update_swing [of "newGame (0, 0)" "1 / 8" "(8, 4)"] f by simp
  have "\<exists>s'. updateTask (Some (1 / 8)) (8, 4) (newGame (0, 0)) = Inr s' \<and>
      camH (camera s') = - 10 \<and> camP (camera s') = - 5 \<and> camR (camera s') = 0 \<and>
      camH (camera s') < camH (camera (newGame (0, 0)))"
    using u c f by simp
  then show ?thesis using f n by simp
qed

section \<open>The pause menu freezes the frame update\<close>

text \<open>
  C6. While the pause menu is active the frame update returns the game unchanged: the
  camera keeps its position and its orientation whatever keys are held, wherever the
  pointer is and however long the frame took.
\<close>

theorem update_paused_noop:
  "menuActive s \<Longrightarrow> update dt md s = s \<and> camera (update dt md s) = camera s"
  by (simp add: update_def)

theorem update_paused_noop_witness:
  "menuActive pausedGame \<and> update 1 (300, 200) pausedGame = pausedGame
     \<and> camera (update 1 (300, 200) pausedGame) = camera pausedGame"
  using update_paused_noop [of pausedGame 1 "(300, 200)"] by (simp add: pausedGame_def)

end
